theory Spec2Isabelle
  imports Complex_Main "HOL-Library.Word"
begin

section \<open>Images\<close>

text \<open>
  A raster image as the imaging library holds it: its dimensions and its pixels in
  row-major order. A mask (mode L) has 8-bit pixels, an RGBA image 32-bit pixels.
  The library's images are values here: \<open>copy()\<close> is the identity.
\<close>

record 'p image =
  width :: nat
  height :: nat
  pix :: "'p list"

type_synonym pixel = "8 word"
type_synonym mask = "8 word image"
type_synonym rgba = "32 word image"

datatype error = ValueError string

definition error_text :: "error \<Rightarrow> string" where
  "error_text e = (case e of ValueError m \<Rightarrow> m)"

definition im_size :: "'p image \<Rightarrow> nat \<times> nat" where
  "im_size im = (width im, height im)"

definition wellformed :: "'p image \<Rightarrow> bool" where
  "wellformed im \<longleftrightarrow> length (pix im) = width im * height im"

text \<open>\<open>Image.new(mode, size, color)\<close>.\<close>

definition Image_new :: "nat \<times> nat \<Rightarrow> 'p \<Rightarrow> 'p image" where
  "Image_new sz c = \<lparr>width = fst sz, height = snd sz, pix = replicate (fst sz * snd sz) c\<rparr>"

text \<open>Python's \<open>int(x)\<close> on a float truncates towards zero.\<close>

definition py_int :: "real \<Rightarrow> int" where
  "py_int x = (if 0 \<le> x then \<lfloor>x\<rfloor> else \<lceil>x\<rceil>)"

text \<open>
  \<open>dst.paste(src, box)\<close> with a 4-tuple box: the box must have the size of the pasted
  image (otherwise the library raises ValueError, images do not match); the region is
  clipped to the destination.
\<close>

definition paste :: "'p image \<Rightarrow> 'p image \<Rightarrow> int \<times> int \<times> int \<times> int \<Rightarrow> error + 'p image" where
  "paste dst src box =
     (case box of (x0, y0, x1, y1) \<Rightarrow>
        if x1 - x0 \<noteq> int (width src) \<or> y1 - y0 \<noteq> int (height src)
        then Inl (ValueError ''images do not match'')
        else Inr (dst\<lparr>pix :=
               map (\<lambda>i. let x = int (i mod width dst); y = int (i div width dst)
                        in if x0 \<le> x \<and> x < x1 \<and> y0 \<le> y \<and> y < y1
                           then pix src ! (nat (y - y0) * width src + nat (x - x0))
                           else pix dst ! i)
                   [0..<width dst * height dst]\<rparr>))"

text \<open>
  \<open>im.crop(box)\<close>: a box whose right (lower) edge is left of (above) the left (upper) edge
  raises ValueError; the part of the box outside the image is filled with zero.
\<close>

definition crop :: "'p::zero image \<Rightarrow> int \<times> int \<times> int \<times> int \<Rightarrow> error + 'p image" where
  "crop im box =
     (case box of (l, t, r, b) \<Rightarrow>
        if r < l then Inl (ValueError ''Coordinate right is less than left'')
        else if b < t then Inl (ValueError ''Coordinate lower is less than upper'')
        else let w = nat (r - l); h = nat (b - t)
             in Inr \<lparr>width = w, height = h,
                     pix = map (\<lambda>i. let x = l + int (i mod w); y = t + int (i div w)
                                   in if 0 \<le> x \<and> x < int (width im) \<and> 0 \<le> y \<and> y < int (height im)
                                      then pix im ! (nat y * width im + nat x)
                                      else 0)
                              [0..<w * h]\<rparr>)"

text \<open>
  \<open>im.resize(size)\<close>: an image of the requested size; the value of each output pixel is
  decided by the library's resampling filter, which is a parameter here (it receives the
  source image, the target size and the index of the output pixel).
\<close>

definition resize :: "('p image \<Rightarrow> nat \<times> nat \<Rightarrow> nat \<Rightarrow> 'p) \<Rightarrow> 'p image \<Rightarrow> nat \<times> nat \<Rightarrow> 'p image" where
  "resize filt im sz =
     \<lparr>width = fst sz, height = snd sz, pix = map (filt im sz) [0..<fst sz * snd sz]\<rparr>"

text \<open>
  \<open>ImageChops.add\<close> and \<open>ImageChops.subtract\<close> (scale 1, offset 0): per-pixel sum and
  difference clipped to the range 0..255, on the common part of the two images.
\<close>

definition add_px :: "pixel \<Rightarrow> pixel \<Rightarrow> pixel" where
  "add_px a b = (if 255 < unat a + unat b then 255 else a + b)"

definition subtract_px :: "pixel \<Rightarrow> pixel \<Rightarrow> pixel" where
  "subtract_px a b = (if unat a < unat b then 0 else a - b)"

definition chop :: "(pixel \<Rightarrow> pixel \<Rightarrow> pixel) \<Rightarrow> mask \<Rightarrow> mask \<Rightarrow> mask" where
  "chop f a b =
     (let w = min (width a) (width b); h = min (height a) (height b)
      in \<lparr>width = w, height = h,
          pix = map (\<lambda>i. f (pix a ! ((i div w) * width a + i mod w))
                          (pix b ! ((i div w) * width b + i mod w)))
                   [0..<w * h]\<rparr>)"

definition ImageChops_add :: "mask \<Rightarrow> mask \<Rightarrow> mask" where
  "ImageChops_add = chop add_px"

definition ImageChops_subtract :: "mask \<Rightarrow> mask \<Rightarrow> mask" where
  "ImageChops_subtract = chop subtract_px"


section \<open>Derived images\<close>

text \<open>
  Blurring, inpainting and alpha compositing are done by the imaging libraries. Their
  results are kept as terms that record the call and its arguments, so that it stays
  visible from which mask and with which parameter a derived image was computed.
\<close>

datatype alpha =
    Plain mask
  | GaussianBlur real alpha
  | Resize_NEAREST "nat \<times> nat" alpha
  | Point_mul real alpha

datatype picture =
    Buffer rgba
  | Fill "nat \<times> nat" string
  | Mask_RGBA mask
  | Composite picture picture alpha
  | Alpha_composite picture picture
  | Shadow_layer "nat \<times> nat" alpha "int \<times> int"
  | Inpaint_blur rgba mask "int \<times> int" int
  | Resize_pic "nat \<times> nat" picture
  | Convert_RGB picture

fun pic_size :: "picture \<Rightarrow> nat \<times> nat" where
  "pic_size (Buffer b) = im_size b"
| "pic_size (Fill sz c) = sz"
| "pic_size (Mask_RGBA m) = im_size m"
| "pic_size (Composite a b m) = pic_size a"
| "pic_size (Alpha_composite a b) = pic_size a"
| "pic_size (Shadow_layer sz a off) = sz"
| "pic_size (Inpaint_blur orig m small r) = im_size orig"
| "pic_size (Resize_pic sz p) = sz"
| "pic_size (Convert_RGB p) = pic_size p"

section \<open>The document state\<close>

text \<open>
  The fields of \<open>BackgroundRemoverGUI\<close> that the viewport, the mask history, the preview
  masks, the caches and the export read or write. Floats are real numbers (the section on
  double-precision arithmetic gives the zoom factor and the thresholds with the rounding
  of the machine). An attribute
  that may be absent or \<open>None\<close> is an option (\<open>delattr\<close> and \<open>None\<close> both read back as
  \<open>None\<close> through \<open>getattr(self, name, None)\<close>).
\<close>

type_synonym stroke = "real \<times> real \<times> real \<times> real \<times> real"

record gui =
  original_image :: rgba
  orig_image_crop :: rgba
  canvas_w :: int
  canvas_h :: int
  zoom_factor :: real
  lowest_zoom_factor :: real
  min_zoom :: bool
  view_x :: real
  view_y :: real
  pan_step :: real
  panning :: bool
  move_enabled :: bool
  pan_start_x :: int
  pan_start_y :: int
  working_mask :: mask
  undo_history_mask :: "mask list"
  redo_history_mask :: "mask list"
  model_output_mask :: "mask option"
  raw_model_mask :: "mask option"
  raw_sam_logits :: "real image option"
  sam_active :: bool
  paint_mode :: bool
  lines :: "stroke list"
  working_image :: picture
  output_displayed :: picture
  cached_blurred_shadow :: "alpha option"
  last_shadow_radius :: "int option"
  cached_blur_image :: "picture option"
  current_blur_radius :: real
  bg_mode :: string
  bg_custom_color :: string
  enable_shadow_var :: bool
  shadow_opacity_slider :: real
  shadow_radius_slider :: real
  shadow_x_slider :: real
  shadow_y_slider :: real
  soften_mask_var :: bool
  blur_radius_var :: real
  show_mask_var :: bool
  export_format :: string
  status_label :: string
  saved_files :: "(string \<times> picture) list"


section \<open>Compositing and caches\<close>

text \<open>
  \<open>regenerate_smart_blur\<close>: the inpainted and blurred background, computed from the source
  image and the working mask at a size bounded by 512 pixels, with an odd blur radius.
\<close>

definition regenerate_smart_blur :: "gui \<Rightarrow> gui" where
  "regenerate_smart_blur s =
     (let max_dim = 512;
          scale = min (max_dim / real (width (original_image s)))
                      (max_dim / real (height (original_image s)));
          new_w = py_int (real (width (original_image s)) * scale);
          new_h = py_int (real (height (original_image s)) * scale);
          radius0 = py_int (current_blur_radius s * scale);
          radius = (if radius0 mod 2 = 0 then radius0 + 1 else radius0)
      in s\<lparr>cached_blur_image :=
             Some (Inpaint_blur (original_image s) (working_mask s) (new_w, new_h) radius)\<rparr>)"

text \<open>
  \<open>apply_background_color\<close>: the image over the blurred background (regenerated when the
  cache is \<open>None\<close>, resized when the sizes differ), over the chosen colour, or unchanged.
\<close>

definition apply_background_color :: "gui \<Rightarrow> picture \<Rightarrow> gui \<times> picture" where
  "apply_background_color s img =
     (if bg_mode s = ''blur'' then
        (let s1 = (if cached_blur_image s = None then regenerate_smart_blur s else s)
         in case cached_blur_image s1 of
              None \<Rightarrow> (s1, img)
            | Some bg \<Rightarrow>
                (s1, Alpha_composite
                       (if pic_size bg = pic_size img then bg else Resize_pic (pic_size img) bg) img))
      else if bg_mode s = ''color'' then
        (s, Alpha_composite (Fill (pic_size img) (bg_custom_color s)) img)
      else (s, img))"

text \<open>
  \<open>update_output_image_preview\<close>: the cut-out (or the mask) over the background. The crop
  and scaling to the canvas that follow change no field of the document.
\<close>

definition update_output_image_preview :: "gui \<Rightarrow> gui" where
  "update_output_image_preview s =
     (let displayed_image = (if \<not> show_mask_var s then working_image s
                             else Mask_RGBA (working_mask s));
          r = apply_background_color s displayed_image
      in (fst r)\<lparr>output_displayed := snd r\<rparr>)"

definition cutout_working_image :: "gui \<Rightarrow> gui" where
  "cutout_working_image s =
     (let empty = Buffer (Image_new (im_size (original_image s)) 0);
          mask_to_use = (if soften_mask_var s \<and> 0 < blur_radius_var s
                         then GaussianBlur (blur_radius_var s) (Plain (working_mask s))
                         else Plain (working_mask s))
      in s\<lparr>working_image := Composite (Buffer (original_image s)) empty mask_to_use\<rparr>)"

text \<open>
  \<open>add_drop_shadow\<close>: the blurred alpha of the working mask is taken from
  \<open>cached_blurred_shadow\<close> unless the cache is \<open>None\<close> or the radius differs from the
  radius of the last call; then it is recomputed (\<open>blurred_shadow\<close>) and stored.
\<close>

definition blurred_shadow :: "mask \<Rightarrow> int \<Rightarrow> alpha" where
  "blurred_shadow alpha shadow_radius =
     (let original_size = im_size alpha;
          downsample_factor = 1 / 2;
          new_size = (nat (py_int (real (fst original_size) * downsample_factor)),
                      nat (py_int (real (snd original_size) * downsample_factor)))
      in Resize_NEAREST original_size
           (GaussianBlur (real_of_int shadow_radius * downsample_factor)
              (Resize_NEAREST new_size (Plain alpha))))"

definition add_drop_shadow :: "gui \<Rightarrow> gui" where
  "add_drop_shadow s =
     (if \<not> enable_shadow_var s then update_output_image_preview (cutout_working_image s)
      else
        let s1 = cutout_working_image s;
            shadow_opacity = shadow_opacity_slider s1;
            shadow_radius = py_int (shadow_radius_slider s1);
            shadow_x = py_int (shadow_x_slider s1);
            shadow_y = py_int (shadow_y_slider s1);
            radius_changed = (last_shadow_radius s1 \<noteq> Some shadow_radius);
            cached = (if radius_changed then None else cached_blurred_shadow s1);
            blurred_alpha = (case cached of
                               None \<Rightarrow> blurred_shadow (working_mask s1) shadow_radius
                             | Some c \<Rightarrow> c);
            shadow_opacity_alpha = Point_mul shadow_opacity blurred_alpha;
            shadow_with_offset =
              Shadow_layer (pic_size (working_image s1)) shadow_opacity_alpha (shadow_x, shadow_y)
        in update_output_image_preview
             (s1\<lparr>last_shadow_radius := Some shadow_radius,
                  cached_blurred_shadow := Some blurred_alpha,
                  working_image := Alpha_composite shadow_with_offset (working_image s1)\<rparr>))"

section \<open>Mask history\<close>

definition UNDO_STEPS :: nat where
  "UNDO_STEPS = 20"

definition add_undo_step :: "gui \<Rightarrow> gui" where
  "add_undo_step s =
     (let h = undo_history_mask s @ [working_mask s];
          h' = (if UNDO_STEPS < length h then tl h else h)
      in s\<lparr>undo_history_mask := h', redo_history_mask := []\<rparr>)"

definition undo :: "gui \<Rightarrow> gui" where
  "undo s =
     (if 1 < length (undo_history_mask s) then
        let current_state = last (undo_history_mask s);
            h = butlast (undo_history_mask s);
            s1 = s\<lparr>undo_history_mask := h,
                   redo_history_mask := redo_history_mask s @ [current_state],
                   working_mask := last h\<rparr>;
            s2 = (if bg_mode s1 = ''blur'' then regenerate_smart_blur s1 else s1);
            s3 = add_drop_shadow s2
        in s3\<lparr>status_label := ''Undo performed''\<rparr>
      else s)"

definition redo :: "gui \<Rightarrow> gui" where
  "redo s =
     (if redo_history_mask s \<noteq> [] then
        let next_state = last (redo_history_mask s);
            s1 = s\<lparr>redo_history_mask := butlast (redo_history_mask s),
                   undo_history_mask := undo_history_mask s @ [next_state],
                   working_mask := next_state\<rparr>;
            s2 = (if bg_mode s1 = ''blur'' then regenerate_smart_blur s1 else s1);
            s3 = add_drop_shadow s2
        in s3\<lparr>status_label := ''Redo performed''\<rparr>
      else s\<lparr>status_label := ''Nothing to Redo''\<rparr>)"

definition clear_working_image :: "gui \<Rightarrow> gui" where
  "clear_working_image s =
     (let s1 = s\<lparr>working_image := Buffer (Image_new (im_size (original_image s)) 0),
                   working_mask := Image_new (im_size (original_image s)) 0\<rparr>;
          s2 = add_undo_step s1;
          s3 = s2\<lparr>cached_blurred_shadow := None, cached_blur_image := None\<rparr>
      in update_output_image_preview s3)"

definition copy_entire_image :: "gui \<Rightarrow> gui" where
  "copy_entire_image s =
     add_drop_shadow
       (add_undo_step (s\<lparr>working_mask := Image_new (im_size (original_image s)) 255\<rparr>))"

section \<open>Applying a preview mask\<close>

text \<open>
  \<open>generate_paint_mode_mask\<close>: a black mask of the size of the current crop on which every
  stored stroke is drawn in white (a line of width \<open>int(size / zoom)\<close> and a disc at each
  end). Which pixels a stroke covers is decided by the drawing library: \<open>ink\<close> receives
  the stroke, the zoom factor and the pixel's column and row.
\<close>

definition generate_paint_mode_mask :: "(stroke \<Rightarrow> real \<Rightarrow> nat \<Rightarrow> nat \<Rightarrow> bool) \<Rightarrow> gui \<Rightarrow> mask" where
  "generate_paint_mode_mask ink s =
     (let w = width (orig_image_crop s); h = height (orig_image_crop s)
      in \<lparr>width = w, height = h,
          pix = map (\<lambda>i. if list_ex (\<lambda>l. ink l (zoom_factor s) (i mod w) (i div w)) (lines s)
                         then 255 else 0)
                   [0..<w * h]\<rparr>)"

text \<open>
  \<open>_apply_mask_modification\<close>: the preview mask (painted or from a model) is pasted into a
  black mask of the size of the working mask at the position of the viewport and combined
  with the working mask by \<open>operation\<close>. Without a preview mask, and when the paste raises,
  only the status line changes. \<open>preview_mask\<close> and \<open>paste_box\<close> are the local variables
  \<open>mask\<close> and \<open>paste_box\<close> of the method.
\<close>

definition preview_mask :: "(stroke \<Rightarrow> real \<Rightarrow> nat \<Rightarrow> nat \<Rightarrow> bool) \<Rightarrow> gui \<Rightarrow> mask option" where
  "preview_mask ink s =
     (if paint_mode s then Some (generate_paint_mode_mask ink s) else model_output_mask s)"

definition paste_box :: "gui \<Rightarrow> int \<times> int \<times> int \<times> int" where
  "paste_box s = (py_int (view_x s), py_int (view_y s),
                  py_int (view_x s + real (width (orig_image_crop s))),
                  py_int (view_y s + real (height (orig_image_crop s))))"

definition apply_mask_modification ::
  "(stroke \<Rightarrow> real \<Rightarrow> nat \<Rightarrow> nat \<Rightarrow> bool) \<Rightarrow> (mask \<Rightarrow> mask \<Rightarrow> mask) \<Rightarrow> gui \<Rightarrow> gui" where
  "apply_mask_modification ink operation s =
     (case preview_mask ink s of
        None \<Rightarrow>
          s\<lparr>status_label := ''Warning: No mask generated to add/subtract. Run a model first.''\<rparr>
      | Some preview \<Rightarrow>
          (let temp_fullsize_mask = Image_new (im_size (working_mask s)) 0
           in (case paste temp_fullsize_mask preview (paste_box s) of
                 Inl e \<Rightarrow> s\<lparr>status_label := ''Error applying mask: '' @ error_text e\<rparr>
               | Inr pasted \<Rightarrow>
                   (let s1 = add_undo_step (s\<lparr>working_mask := operation (working_mask s) pasted\<rparr>);
                        s2 = s1\<lparr>cached_blurred_shadow := None\<rparr>;
                        s3 = (if bg_mode s2 = ''blur'' then regenerate_smart_blur s2 else s2);
                        s4 = add_drop_shadow s3
                    in s4\<lparr>status_label := ''Mask applied.''\<rparr>))))"

definition add_to_working_image :: "(stroke \<Rightarrow> real \<Rightarrow> nat \<Rightarrow> nat \<Rightarrow> bool) \<Rightarrow> gui \<Rightarrow> gui" where
  "add_to_working_image ink s = apply_mask_modification ink ImageChops_add s"

definition subtract_from_working_image :: "(stroke \<Rightarrow> real \<Rightarrow> nat \<Rightarrow> nat \<Rightarrow> bool) \<Rightarrow> gui \<Rightarrow> gui" where
  "subtract_from_working_image ink s = apply_mask_modification ink ImageChops_subtract s"

section \<open>Viewport\<close>

text \<open>
  The part of a Tk event that the handlers read: the pointer position on the canvas, the
  button number (4 and 5 are the scroll buttons) and the wheel delta.
\<close>

record event =
  ev_x :: int
  ev_y :: int
  ev_num :: int
  ev_delta :: int

definition DEFAULT_ZOOM_FACTOR :: real where
  "DEFAULT_ZOOM_FACTOR = 12 / 10"

definition MAX_ZOOM_FACTOR :: real where
  "MAX_ZOOM_FACTOR = 50"

text \<open>
  \<open>_calculate_preview_image\<close>, as far as the document is concerned: the crop of the image
  that the viewport shows. The resize to the canvas that follows is presentation.
\<close>

definition calculate_preview_image :: "gui \<Rightarrow> 'p::zero image \<Rightarrow> error + 'p image" where
  "calculate_preview_image s img =
     (let view_width = real_of_int (canvas_w s) / zoom_factor s;
          view_height = real_of_int (canvas_h s) / zoom_factor s;
          left = py_int (view_x s);
          top = py_int (view_y s);
          right = py_int (view_x s + real_of_int (min \<lceil>view_width\<rceil> (int (width img))));
          bottom = py_int (view_y s + real_of_int (min \<lceil>view_height\<rceil> (int (height img))))
      in crop img (left, top, right, bottom))"

text \<open>
  \<open>update_input_image_preview\<close>: stores the visible crop of the source image and renders
  the output. \<open>Inl\<close> means that the crop raised and the handler that called was aborted
  with the assignments it had made so far.
\<close>

definition update_input_image_preview :: "gui \<Rightarrow> error + gui" where
  "update_input_image_preview s =
     (case calculate_preview_image s (original_image s) of
        Inl e \<Rightarrow> Inl e
      | Inr c \<Rightarrow> Inr (update_output_image_preview (s\<lparr>orig_image_crop := c\<rparr>)))"

definition clear_coord_overlay :: "gui \<Rightarrow> gui" where
  "clear_coord_overlay s =
     s\<lparr>lines := [], model_output_mask := Some (Image_new (im_size (orig_image_crop s)) 0)\<rparr>"

text \<open>The clamp \<open>max(0, min(v, hi))\<close> that every change of the origin applies.\<close>

definition clamp_view :: "real \<Rightarrow> real \<Rightarrow> real" where
  "clamp_view v hi = max 0 (min v hi)"








text \<open>
  \<open>zoom\<close>: the wheel multiplies or divides the zoom factor by 1.2; zooming in is refused
  beyond \<open>MAX_ZOOM_FACTOR\<close>, zooming out stops at \<open>lowest_zoom_factor\<close>. The origin is then
  moved so that the image point under the pointer stays there, and clamped.
  \<open>new_zoom_factor\<close> is the local variable of that name after the branch on the wheel
  direction, \<open>zoom_assign\<close> the document after the assignments to \<open>pan_step\<close>,
  \<open>zoom_factor\<close>, \<open>min_zoom\<close>, \<open>view_x\<close> and \<open>view_y\<close>.
\<close>

definition new_zoom_factor :: "event \<Rightarrow> gui \<Rightarrow> real" where
  "new_zoom_factor event s =
     (if ev_num event = 4 \<or> 0 < ev_delta event
      then (if zoom_factor s * DEFAULT_ZOOM_FACTOR \<le> MAX_ZOOM_FACTOR
            then zoom_factor s * DEFAULT_ZOOM_FACTOR else zoom_factor s)
      else if ev_num event = 5 \<or> ev_delta event < 0
      then max (zoom_factor s / DEFAULT_ZOOM_FACTOR) (lowest_zoom_factor s)
      else zoom_factor s)"

definition zoom_assign :: "event \<Rightarrow> gui \<Rightarrow> gui" where
  "zoom_assign event s =
     (let mouse_x = view_x s + real_of_int (ev_x event) / zoom_factor s;
          mouse_y = view_y s + real_of_int (ev_y event) / zoom_factor s;
          z = new_zoom_factor event s
      in s\<lparr>pan_step := 30 / zoom_factor s,
            zoom_factor := z,
            min_zoom := (if (ev_num event = 4 \<or> 0 < ev_delta event)
                            \<and> zoom_factor s * DEFAULT_ZOOM_FACTOR \<le> MAX_ZOOM_FACTOR
                         then False else min_zoom s),
            view_x := clamp_view (mouse_x - real_of_int (ev_x event) / z)
                        (real (width (original_image s)) - real_of_int (canvas_w s) / z),
            view_y := clamp_view (mouse_y - real_of_int (ev_y event) / z)
                        (real (height (original_image s)) - real_of_int (canvas_h s) / z)\<rparr>)"

definition mark_min_zoom :: "gui \<Rightarrow> gui" where
  "mark_min_zoom s = (if lowest_zoom_factor s = zoom_factor s then s\<lparr>min_zoom := True\<rparr> else s)"

definition zoom :: "event \<Rightarrow> gui \<Rightarrow> gui" where
  "zoom event s =
     (let s1 = zoom_assign event s
      in if \<not> min_zoom s1 then
           (case update_input_image_preview s1 of
              Inl e \<Rightarrow> s1
            | Inr s2 \<Rightarrow> mark_min_zoom (clear_coord_overlay s2))
         else mark_min_zoom s1)"




text \<open>
  \<open>setup_image_display\<close>: the state of the workspace for a newly loaded image; the zoom is
  the factor at which the whole image fits the canvas.
\<close>

definition setup_image_display :: "gui \<Rightarrow> gui" where
  "setup_image_display s =
     (let lowest = min (real_of_int (canvas_w s) / real (width (original_image s)))
                       (real_of_int (canvas_h s) / real (height (original_image s)));
          m = Image_new (im_size (original_image s)) 0
      in s\<lparr>lowest_zoom_factor := lowest,
            working_image := Buffer (Image_new (im_size (original_image s)) 0),
            working_mask := m,
            undo_history_mask := [m],
            redo_history_mask := [],
            zoom_factor := lowest,
            view_x := 0, view_y := 0,
            min_zoom := True\<rparr>)"

text \<open>\<open>initialise_new_image\<close>, called after \<open>load_image_path\<close> has replaced the source image.\<close>

definition initialise_new_image :: "rgba \<Rightarrow> gui \<Rightarrow> gui" where
  "initialise_new_image img s =
     (let s1 = (s\<lparr>original_image := img\<rparr>)\<lparr>cached_blur_image := None\<rparr>;
          s2 = setup_image_display s1
      in case update_input_image_preview s2 of
           Inl e \<Rightarrow> s2
         | Inr s3 \<Rightarrow>
             (let s4 = clear_coord_overlay s3;
                  m = Image_new (im_size (original_image s4)) 0
              in s4\<lparr>working_image := Buffer (Image_new (im_size (original_image s4)) 0),
                    working_mask := m,
                    undo_history_mask := [m],
                    redo_history_mask := [],
                    sam_active := False,
                    raw_model_mask := None,
                    raw_sam_logits := None\<rparr>))"

section \<open>Preview masks from model output\<close>

text \<open>\<open>im.point(f)\<close> on a mask applies \<open>f\<close> to every pixel value.\<close>

definition point :: "(pixel \<Rightarrow> pixel) \<Rightarrow> mask \<Rightarrow> mask" where
  "point f im = im\<lparr>pix := map f (pix im)\<rparr>"

definition update_mask_threshold :: "int \<Rightarrow> gui \<Rightarrow> gui" where
  "update_mask_threshold threshold s =
     (case raw_model_mask s of
        None \<Rightarrow> s
      | Some raw \<Rightarrow>
          s\<lparr>model_output_mask := Some (point (\<lambda>p. if threshold < uint p then 255 else 0) raw)\<rparr>)"

text \<open>
  \<open>update_sam_threshold\<close>: the logits (the slice \<open>masks[0, 0, :, :]\<close>, an array of the size of
  the source image) are thresholded into a full-size mask, which is cropped to the
  viewport; if the crop raises, the full mask is resized to the size of the visible crop.
\<close>

definition update_sam_threshold ::
  "(mask \<Rightarrow> nat \<times> nat \<Rightarrow> nat \<Rightarrow> pixel) \<Rightarrow> real \<Rightarrow> gui \<Rightarrow> gui" where
  "update_sam_threshold filt threshold s =
     (case raw_sam_logits s of
        None \<Rightarrow> s
      | Some current_mask \<Rightarrow>
          (let full_mask = \<lparr>width = width current_mask, height = height current_mask,
                            pix = map (\<lambda>l. if threshold < l then 255 else 0) (pix current_mask)\<rparr>
           in s\<lparr>model_output_mask :=
                 Some (case crop full_mask (paste_box s) of
                         Inr m \<Rightarrow> m
                       | Inl e \<Rightarrow> resize filt full_mask (im_size (orig_image_crop s)))\<rparr>))"

text \<open>
  \<open>on_unified_slider_change\<close> maps the slider value (0 to 100) to the threshold of the
  active mode.
\<close>

definition sam_threshold :: "real \<Rightarrow> real" where
  "sam_threshold val = (let t = 1 - val / 100; min_sam = - 3; max_sam = 2
                        in min_sam + t * (max_sam - min_sam))"

definition whole_threshold :: "real \<Rightarrow> int" where
  "whole_threshold val = (let t = 1 - val / 100; min_thresh = 10; max_thresh = 250
                          in py_int (min_thresh + t * (max_thresh - min_thresh)))"

definition on_unified_slider_change ::
  "(mask \<Rightarrow> nat \<times> nat \<Rightarrow> nat \<Rightarrow> pixel) \<Rightarrow> real \<Rightarrow> gui \<Rightarrow> gui" where
  "on_unified_slider_change filt val s =
     (if sam_active s then update_sam_threshold filt (sam_threshold val) s
      else update_mask_threshold (whole_threshold val) s)"

text \<open>
  \<open>run_whole_image_model\<close> with its completion callback: the raw map, which
  \<open>generate_whole_image_model_mask\<close> resizes to the size of the crop it was given, is stored
  and thresholded at the slider value 50. \<open>infer\<close> is the model: it yields the value of
  the map at each pixel index of the crop. A failing inference only sets the status line
  and is left out.
\<close>

definition run_whole_image_model ::
  "(mask \<Rightarrow> nat \<times> nat \<Rightarrow> nat \<Rightarrow> pixel) \<Rightarrow> (rgba \<Rightarrow> nat \<Rightarrow> pixel) \<Rightarrow> gui \<Rightarrow> gui" where
  "run_whole_image_model filt infer s =
     (if paint_mode s then s
      else
        let s1 = (clear_coord_overlay (s\<lparr>sam_active := False\<rparr>))\<lparr>raw_sam_logits := None\<rparr>;
            image = orig_image_crop s1;
            result_mask = \<lparr>width = width image, height = height image,
                           pix = map (infer image) [0..<width image * height image]\<rparr>;
            s2 = s1\<lparr>raw_model_mask := Some result_mask\<rparr>
        in (on_unified_slider_change filt 50 s2)\<lparr>status_label := ''Inference Complete''\<rparr>)"

section \<open>Export\<close>




section \<open>Example documents\<close>

text \<open>
  The document after start-up with a source image of 2 by 2 pixels on a canvas of 4 by 4
  pixels (the image fits at zoom 2), with the default settings.
\<close>

definition example_image :: rgba where
  "example_image = \<lparr>width = 2, height = 2, pix = [0xFF102030, 0xFF405060, 0xFF708090, 0xFFA0B0C0]\<rparr>"

definition example_gui :: gui where
  "example_gui =
     \<lparr>original_image = example_image,
      orig_image_crop = example_image,
      canvas_w = 4, canvas_h = 4,
      zoom_factor = 2, lowest_zoom_factor = 2, min_zoom = True,
      view_x = 0, view_y = 0, pan_step = 30,
      panning = False, move_enabled = True, pan_start_x = 0, pan_start_y = 0,
      working_mask = \<lparr>width = 2, height = 2, pix = [0, 0, 0, 0]\<rparr>,
      undo_history_mask = [\<lparr>width = 2, height = 2, pix = [0, 0, 0, 0]\<rparr>],
      redo_history_mask = [],
      model_output_mask = None, raw_model_mask = None, raw_sam_logits = None,
      sam_active = False, paint_mode = False, lines = [],
      working_image = Buffer \<lparr>width = 2, height = 2, pix = [0, 0, 0, 0]\<rparr>,
      output_displayed = Buffer \<lparr>width = 2, height = 2, pix = [0, 0, 0, 0]\<rparr>,
      cached_blurred_shadow = None, last_shadow_radius = None,
      cached_blur_image = None, current_blur_radius = 20,
      bg_mode = ''transparent'', bg_custom_color = ''#0000FF'',
      enable_shadow_var = False,
      shadow_opacity_slider = 1 / 2, shadow_radius_slider = 10,
      shadow_x_slider = 5, shadow_y_slider = 5,
      soften_mask_var = False, blur_radius_var = 0, show_mask_var = False,
      export_format = ''png'', status_label = ''Status: Ready'', saved_files = []\<rparr>"

text \<open>A preview mask for the whole crop, and a stroke-free rasteriser.\<close>

definition example_preview :: mask where
  "example_preview = \<lparr>width = 2, height = 2, pix = [255, 0, 0, 255]\<rparr>"

definition no_ink :: "stroke \<Rightarrow> real \<Rightarrow> nat \<Rightarrow> nat \<Rightarrow> bool" where
  "no_ink l z x y = False"

text \<open>The example document with a committed mask and a preview mask from a model.\<close>

definition example_with_preview :: gui where
  "example_with_preview =
     example_gui\<lparr>working_mask := \<lparr>width = 2, height = 2, pix = [0, 10, 200, 0]\<rparr>,
                 undo_history_mask := [\<lparr>width = 2, height = 2, pix = [0, 0, 0, 0]\<rparr>,
                                       \<lparr>width = 2, height = 2, pix = [0, 10, 200, 0]\<rparr>],
                 model_output_mask := Some example_preview\<rparr>"


section \<open>Mutations of the working mask\<close>

text \<open>
  The operations that change the working mask and record an undo step. Painting is
  \<open>Add\<close> or \<open>Subtract\<close> in a document whose \<open>paint_mode\<close> is on.
\<close>

datatype mutation = Add | Subtract | Clear | Copy_all

fun mutate :: "(stroke \<Rightarrow> real \<Rightarrow> nat \<Rightarrow> nat \<Rightarrow> bool) \<Rightarrow> mutation \<Rightarrow> gui \<Rightarrow> gui" where
  "mutate ink Add s = add_to_working_image ink s"
| "mutate ink Subtract s = subtract_from_working_image ink s"
| "mutate ink Clear s = clear_working_image s"
| "mutate ink Copy_all s = copy_entire_image s"

text \<open>
  \<open>Add\<close> and \<open>Subtract\<close> change the mask only when there is a preview mask and the paste
  into the full-size mask does not raise.
\<close>

definition mask_applies :: "(stroke \<Rightarrow> real \<Rightarrow> nat \<Rightarrow> nat \<Rightarrow> bool) \<Rightarrow> gui \<Rightarrow> bool" where
  "mask_applies ink s =
     (case preview_mask ink s of
        None \<Rightarrow> False
      | Some p \<Rightarrow>
          (case paste (Image_new (im_size (working_mask s)) 0) p (paste_box s) of
             Inl e \<Rightarrow> False
           | Inr t \<Rightarrow> True))"

text \<open>
  The state of the history in every document the program reaches: the undo stack is not
  empty and its top is the working mask.
\<close>

definition history_inv :: "gui \<Rightarrow> bool" where
  "history_inv s \<longleftrightarrow> undo_history_mask s \<noteq> [] \<and> last (undo_history_mask s) = working_mask s"

section \<open>Viewport invariants\<close>



text \<open>Wheel events: one notch up (zoom in) and one notch down (zoom out) at a canvas position.\<close>

definition wheel_up :: "int \<Rightarrow> int \<Rightarrow> event" where
  "wheel_up x y = \<lparr>ev_x = x, ev_y = y, ev_num = 4, ev_delta = 0\<rparr>"





section \<open>Included pixels\<close>







definition first_pixel :: "mask \<Rightarrow> nat \<times> nat \<Rightarrow> nat \<Rightarrow> pixel" where
  "first_pixel im sz i = (case pix im of [] \<Rightarrow> 0 | p # ps \<Rightarrow> p)"

section \<open>A photo, a model run, a zoom step and a slider change\<close>

text \<open>
  A document showing a photo of 100 by 80 pixels on a canvas of 50 by 40 pixels at the fit
  zoom 1/2, and a model whose map is 200 everywhere. \<open>after_model\<close> is that document
  after the whole-image model has run, \<open>after_zoom\<close> after the wheel has then zoomed in
  one notch, and \<open>stale_preview_gui\<close> after the threshold slider has then been moved
  to 60.
\<close>

definition photo :: rgba where
  "photo = Image_new (100, 80) 0xFF808080"

definition photo_gui :: gui where
  "photo_gui =
     example_gui\<lparr>original_image := photo, orig_image_crop := photo,
                 canvas_w := 50, canvas_h := 40,
                 zoom_factor := 1 / 2, lowest_zoom_factor := 1 / 2,
                 working_mask := Image_new (100, 80) 0,
                 undo_history_mask := [Image_new (100, 80) 0],
                 working_image := Buffer (Image_new (100, 80) 0),
                 output_displayed := Buffer (Image_new (100, 80) 0)\<rparr>"

definition flat_model :: "rgba \<Rightarrow> nat \<Rightarrow> pixel" where
  "flat_model im i = 200"

definition after_model :: gui where
  "after_model = run_whole_image_model first_pixel flat_model photo_gui"

definition after_zoom :: gui where
  "after_zoom = zoom (wheel_up 0 0) after_model"

definition stale_preview_gui :: gui where
  "stale_preview_gui = on_unified_slider_change first_pixel 60 after_zoom"

section \<open>A document with a drop shadow\<close>

text \<open>
  The example document with the drop shadow enabled, after the preview mask has been
  added (which computes and stores the blurred shadow of the new mask), and after the
  \<open>undo\<close> that follows.
\<close>

definition shadow_gui :: gui where
  "shadow_gui = example_with_preview\<lparr>enable_shadow_var := True\<rparr>"

definition shadow_added :: gui where
  "shadow_added = add_to_working_image no_ink shadow_gui"

definition shadow_undone :: gui where
  "shadow_undone = undo shadow_added"

section \<open>A document set to export JPG\<close>


section \<open>Double-precision arithmetic\<close>










section \<open>Frame and history lemmas\<close>


lemma regenerate_smart_blur_frame:
  "working_mask (regenerate_smart_blur s) = working_mask s"
  "undo_history_mask (regenerate_smart_blur s) = undo_history_mask s"
  "redo_history_mask (regenerate_smart_blur s) = redo_history_mask s"
  "paint_mode (regenerate_smart_blur s) = paint_mode s"
  "lines (regenerate_smart_blur s) = lines s"
  "zoom_factor (regenerate_smart_blur s) = zoom_factor s"
  "orig_image_crop (regenerate_smart_blur s) = orig_image_crop s"
  "model_output_mask (regenerate_smart_blur s) = model_output_mask s"
  "view_x (regenerate_smart_blur s) = view_x s"
  "view_y (regenerate_smart_blur s) = view_y s"
  "bg_mode (regenerate_smart_blur s) = bg_mode s"
  "original_image (regenerate_smart_blur s) = original_image s"
  by (simp_all add: regenerate_smart_blur_def Let_def)

lemma update_output_image_preview_frame:
  "working_mask (update_output_image_preview s) = working_mask s"
  "undo_history_mask (update_output_image_preview s) = undo_history_mask s"
  "redo_history_mask (update_output_image_preview s) = redo_history_mask s"
  "paint_mode (update_output_image_preview s) = paint_mode s"
  "lines (update_output_image_preview s) = lines s"
  "zoom_factor (update_output_image_preview s) = zoom_factor s"
  "orig_image_crop (update_output_image_preview s) = orig_image_crop s"
  "model_output_mask (update_output_image_preview s) = model_output_mask s"
  "view_x (update_output_image_preview s) = view_x s"
  "view_y (update_output_image_preview s) = view_y s"
  "bg_mode (update_output_image_preview s) = bg_mode s"
  "original_image (update_output_image_preview s) = original_image s"
  by (simp_all add: update_output_image_preview_def apply_background_color_def Let_def
        regenerate_smart_blur_frame split: option.splits)

lemma add_drop_shadow_frame:
  "working_mask (add_drop_shadow s) = working_mask s"
  "undo_history_mask (add_drop_shadow s) = undo_history_mask s"
  "redo_history_mask (add_drop_shadow s) = redo_history_mask s"
  "paint_mode (add_drop_shadow s) = paint_mode s"
  "lines (add_drop_shadow s) = lines s"
  "zoom_factor (add_drop_shadow s) = zoom_factor s"
  "orig_image_crop (add_drop_shadow s) = orig_image_crop s"
  "model_output_mask (add_drop_shadow s) = model_output_mask s"
  "view_x (add_drop_shadow s) = view_x s"
  "view_y (add_drop_shadow s) = view_y s"
  "bg_mode (add_drop_shadow s) = bg_mode s"
  "original_image (add_drop_shadow s) = original_image s"
  by (simp_all add: add_drop_shadow_def cutout_working_image_def Let_def
        update_output_image_preview_frame split: option.splits)


lemma add_undo_step_frame:
  "working_mask (add_undo_step s) = working_mask s"
  "redo_history_mask (add_undo_step s) = []"
  "paint_mode (add_undo_step s) = paint_mode s"
  "lines (add_undo_step s) = lines s"
  "zoom_factor (add_undo_step s) = zoom_factor s"
  "orig_image_crop (add_undo_step s) = orig_image_crop s"
  "model_output_mask (add_undo_step s) = model_output_mask s"
  "view_x (add_undo_step s) = view_x s"
  "view_y (add_undo_step s) = view_y s"
  "bg_mode (add_undo_step s) = bg_mode s"
  "original_image (add_undo_step s) = original_image s"
  by (simp_all add: add_undo_step_def Let_def)

lemma add_undo_step_history:
  "undo_history_mask (add_undo_step s) \<noteq> []"
  "last (undo_history_mask (add_undo_step s)) = working_mask s"
  "undo_history_mask s \<noteq> [] \<Longrightarrow> 1 < length (undo_history_mask (add_undo_step s))"
  "undo_history_mask s \<noteq> [] \<Longrightarrow>
     last (butlast (undo_history_mask (add_undo_step s))) = last (undo_history_mask s)"
proof -
  let ?h = "undo_history_mask s @ [working_mask s]"
  show "undo_history_mask (add_undo_step s) \<noteq> []"
    by (cases "undo_history_mask s") (simp_all add: add_undo_step_def Let_def UNDO_STEPS_def)
  show "last (undo_history_mask (add_undo_step s)) = working_mask s"
    by (cases "undo_history_mask s") (simp_all add: add_undo_step_def Let_def UNDO_STEPS_def last_tl)
  show "1 < length (undo_history_mask (add_undo_step s))" if "undo_history_mask s \<noteq> []"
    using that by (cases "undo_history_mask s") (auto simp: add_undo_step_def Let_def UNDO_STEPS_def)
  show "last (butlast (undo_history_mask (add_undo_step s))) = last (undo_history_mask s)"
    if "undo_history_mask s \<noteq> []"
  proof (cases "undo_history_mask s")
    case Nil
    with that show ?thesis by simp
  next
    case (Cons a as)
    show ?thesis
    proof (cases "UNDO_STEPS < length ?h")
      case True
      then have "as \<noteq> []" using Cons by (auto simp: UNDO_STEPS_def)
      then show ?thesis using Cons True
        by (simp add: add_undo_step_def Let_def butlast_append)
    next
      case False
      then show ?thesis using Cons
        by (simp add: add_undo_step_def Let_def butlast_append)
    qed
  qed
qed

section \<open>Adding and subtracting masks\<close>


lemma paste_dims:
  "paste dst src box = Inr t \<Longrightarrow> width t = width dst \<and> height t = height dst \<and>
     length (pix t) = width dst * height dst"
  by (auto simp: paste_def split: prod.splits if_splits)

lemma Image_new_dims:
  "width (Image_new sz c) = fst sz" "height (Image_new sz c) = snd sz"
  "length (pix (Image_new sz c)) = fst sz * snd sz"
  by (simp_all add: Image_new_def)

lemma chop_same_size:
  assumes "width b = width a" "height b = height a"
  shows "chop f a b = \<lparr>width = width a, height = height a,
           pix = map (\<lambda>i. f (pix a ! i) (pix b ! i)) [0..<width a * height a]\<rparr>"
proof -
  have idx: "i div width a * width a + i mod width a = i" for i
    by simp
  show ?thesis
    using assms by (simp add: chop_def Let_def idx)
qed

lemma subtract_add_px: "unat a + unat b \<le> 255 \<Longrightarrow> subtract_px (add_px a b) b = a"
proof -
  assume h: "unat a + unat b \<le> 255"
  then have "unat a + unat b < 2 ^ LENGTH(8)"
    by simp
  then have "unat (a + b) = unat a + unat b"
    by (rule unat_add_lem [THEN iffD1])
  then show ?thesis using h
    by (simp add: add_px_def subtract_px_def)
qed

lemma chop_subtract_add:
  assumes wf: "wellformed a"
    and dims: "width b = width a" "height b = height a"
    and nosat: "\<forall>i<width a * height a. unat (pix a ! i) + unat (pix b ! i) \<le> 255"
  shows "ImageChops_subtract (ImageChops_add a b) b = a"
proof -
  let ?n = "width a * height a"
  let ?c = "ImageChops_add a b"
  have c: "?c = \<lparr>width = width a, height = height a,
                  pix = map (\<lambda>i. add_px (pix a ! i) (pix b ! i)) [0..<?n]\<rparr>"
    unfolding ImageChops_add_def using dims by (rule chop_same_size)
  have wc: "width b = width ?c" "height b = height ?c"
    using dims by (simp_all add: c)
  have "ImageChops_subtract ?c b = \<lparr>width = width ?c, height = height ?c,
           pix = map (\<lambda>i. subtract_px (pix ?c ! i) (pix b ! i)) [0..<width ?c * height ?c]\<rparr>"
    unfolding ImageChops_subtract_def using wc by (rule chop_same_size)
  also have "\<dots> = \<lparr>width = width a, height = height a,
           pix = map (\<lambda>i. subtract_px (add_px (pix a ! i) (pix b ! i)) (pix b ! i)) [0..<?n]\<rparr>"
    by (simp add: c)
  also have "map (\<lambda>i. subtract_px (add_px (pix a ! i) (pix b ! i)) (pix b ! i)) [0..<?n] = pix a"
    using wf nosat by (intro nth_equalityI) (simp_all add: wellformed_def subtract_add_px)
  finally show ?thesis by simp
qed


lemma apply_mask_modification_frame:
  "paint_mode (apply_mask_modification ink operation s) = paint_mode s"
  "lines (apply_mask_modification ink operation s) = lines s"
  "zoom_factor (apply_mask_modification ink operation s) = zoom_factor s"
  "orig_image_crop (apply_mask_modification ink operation s) = orig_image_crop s"
  "model_output_mask (apply_mask_modification ink operation s) = model_output_mask s"
  "view_x (apply_mask_modification ink operation s) = view_x s"
  "view_y (apply_mask_modification ink operation s) = view_y s"
  by (simp_all add: apply_mask_modification_def Let_def add_drop_shadow_frame
        regenerate_smart_blur_frame add_undo_step_frame split: option.splits sum.splits)

lemma preview_mask_apply:
  "preview_mask ink (apply_mask_modification ink' operation s) = preview_mask ink s"
  by (simp add: preview_mask_def generate_paint_mode_mask_def apply_mask_modification_frame)

lemma paste_box_apply:
  "paste_box (apply_mask_modification ink operation s) = paste_box s"
  by (simp add: paste_box_def apply_mask_modification_frame)

lemma apply_mask_modification_none:
  "preview_mask ink s = None \<Longrightarrow>
   apply_mask_modification ink operation s =
     s\<lparr>status_label := ''Warning: No mask generated to add/subtract. Run a model first.''\<rparr>"
  by (simp add: apply_mask_modification_def)

lemma apply_mask_modification_error:
  "preview_mask ink s = Some p \<Longrightarrow>
   paste (Image_new (im_size (working_mask s)) 0) p (paste_box s) = Inl e \<Longrightarrow>
   apply_mask_modification ink operation s =
     s\<lparr>status_label := ''Error applying mask: '' @ error_text e\<rparr>"
  by (simp add: apply_mask_modification_def)

lemma apply_mask_modification_applied:
  assumes "preview_mask ink s = Some p"
    and "paste (Image_new (im_size (working_mask s)) 0) p (paste_box s) = Inr t"
  shows "working_mask (apply_mask_modification ink operation s) = operation (working_mask s) t"
    and "undo_history_mask (apply_mask_modification ink operation s) =
           undo_history_mask (add_undo_step (s\<lparr>working_mask := operation (working_mask s) t\<rparr>))"
    and "redo_history_mask (apply_mask_modification ink operation s) = []"
  using assms
  by (simp_all add: apply_mask_modification_def Let_def add_drop_shadow_frame
        regenerate_smart_blur_frame add_undo_step_frame)

lemma all_less_4: "(\<forall>i<4::nat. P i) \<longleftrightarrow> P 0 \<and> P 1 \<and> P 2 \<and> P 3"
proof -
  have "i < 4 \<longleftrightarrow> i = 0 \<or> i = 1 \<or> i = 2 \<or> i = 3" for i :: nat
    by arith
  then show ?thesis by auto
qed




text \<open>
  Claim C8. Adding to or subtracting from the mask when there is no preview mask (paint
  mode is off and no model has produced one) only sets the status line to the warning:
  the working mask, the undo history and the redo history stay as they were, and the
  call returns normally.
\<close>

theorem add_subtract_without_preview_aborts:
  assumes "preview_mask ink s = None"
  shows "add_to_working_image ink s =
           s\<lparr>status_label := ''Warning: No mask generated to add/subtract. Run a model first.''\<rparr>
       \<and> subtract_from_working_image ink s =
           s\<lparr>status_label := ''Warning: No mask generated to add/subtract. Run a model first.''\<rparr>
       \<and> working_mask (add_to_working_image ink s) = working_mask s
       \<and> undo_history_mask (add_to_working_image ink s) = undo_history_mask s
       \<and> redo_history_mask (add_to_working_image ink s) = redo_history_mask s
       \<and> working_mask (subtract_from_working_image ink s) = working_mask s
       \<and> undo_history_mask (subtract_from_working_image ink s) = undo_history_mask s
       \<and> redo_history_mask (subtract_from_working_image ink s) = redo_history_mask s"
  using assms
  by (simp add: add_to_working_image_def subtract_from_working_image_def
        apply_mask_modification_none)

text \<open>
  Claim C5. When adding the preview mask saturates no pixel of the working mask (the sum
  stays at or below 255 everywhere), adding the preview mask and then subtracting the same
  preview mask gives back the working mask, pixel for pixel.
\<close>

theorem add_then_subtract_restores_mask:
  assumes wf: "wellformed (working_mask s)"
    and pre: "preview_mask ink s = Some p"
    and nosat: "\<forall>t. paste (Image_new (im_size (working_mask s)) 0) p (paste_box s) = Inr t \<longrightarrow>
                  (\<forall>i<width (working_mask s) * height (working_mask s).
                     unat (pix (working_mask s) ! i) + unat (pix t ! i) \<le> 255)"
  shows "working_mask (subtract_from_working_image ink (add_to_working_image ink s)) = working_mask s"
proof -
  let ?M = "working_mask s"
  let ?s' = "add_to_working_image ink s"
  have pre': "preview_mask ink ?s' = Some p"
    using pre by (simp add: add_to_working_image_def preview_mask_apply)
  have box': "paste_box ?s' = paste_box s"
    by (simp add: add_to_working_image_def paste_box_apply)
  show ?thesis
  proof (cases "paste (Image_new (im_size ?M) 0) p (paste_box s)")
    case (Inl e)
    have s': "?s' = s\<lparr>status_label := ''Error applying mask: '' @ error_text e\<rparr>"
      unfolding add_to_working_image_def using pre Inl by (rule apply_mask_modification_error)
    have "paste (Image_new (im_size (working_mask ?s')) 0) p (paste_box ?s') = Inl e"
      using Inl by (simp add: s' paste_box_def)
    with pre' have "subtract_from_working_image ink ?s' =
        ?s'\<lparr>status_label := ''Error applying mask: '' @ error_text e\<rparr>"
      unfolding subtract_from_working_image_def by (rule apply_mask_modification_error)
    then show ?thesis by (simp add: s')
  next
    case (Inr t)
    have dims: "width t = width ?M" "height t = height ?M"
      using paste_dims [OF Inr] by (simp_all add: Image_new_dims im_size_def)
    have M': "working_mask ?s' = ImageChops_add ?M t"
      unfolding add_to_working_image_def using pre Inr by (rule apply_mask_modification_applied)
    have sz: "im_size (working_mask ?s') = im_size ?M"
      using dims by (simp add: M' ImageChops_add_def chop_same_size im_size_def)
    have "paste (Image_new (im_size (working_mask ?s')) 0) p (paste_box ?s') = Inr t"
      using Inr by (simp add: sz box')
    with pre' have "working_mask (subtract_from_working_image ink ?s') =
        ImageChops_subtract (working_mask ?s') t"
      unfolding subtract_from_working_image_def by (rule apply_mask_modification_applied)
    also have "\<dots> = ?M"
      unfolding M' using wf dims nosat Inr by (intro chop_subtract_add) simp_all
    finally show ?thesis .
  qed
qed

theorem add_subtract_without_preview_aborts_witness:
  "preview_mask no_ink example_gui = None
   \<and> working_mask (add_to_working_image no_ink example_gui) = working_mask example_gui
   \<and> undo_history_mask (subtract_from_working_image no_ink example_gui) =
       undo_history_mask example_gui
   \<and> status_label (add_to_working_image no_ink example_gui) =
       ''Warning: No mask generated to add/subtract. Run a model first.''"
proof -
  have h: "preview_mask no_ink example_gui = None"
    by (simp add: preview_mask_def example_gui_def)
  show ?thesis
    using h add_subtract_without_preview_aborts [OF h] by simp
qed

lemma example_with_preview_wellformed: "wellformed (working_mask example_with_preview)"
  by (simp add: wellformed_def example_with_preview_def example_gui_def)

lemma example_with_preview_mask:
  "preview_mask no_ink example_with_preview = Some example_preview"
  by (simp add: preview_mask_def example_with_preview_def example_gui_def)

lemma example_with_preview_pasted:
  "paste (Image_new (im_size (working_mask example_with_preview)) 0)
     example_preview (paste_box example_with_preview) = Inr example_preview"
proof -
  have box: "paste_box example_with_preview = (0, 0, 2, 2)"
    by (simp add: paste_box_def example_with_preview_def example_gui_def example_image_def
          py_int_def)
  have sz: "im_size (working_mask example_with_preview) = (2, 2)"
    by (simp add: im_size_def example_with_preview_def example_gui_def)
  show ?thesis
    unfolding box sz
    by (simp add: paste_def Image_new_def example_preview_def upt_rec)
qed

lemma example_with_preview_added:
  "working_mask (add_to_working_image no_ink example_with_preview) =
     \<lparr>width = 2, height = 2, pix = [255, 10, 200, 255]\<rparr>"
  unfolding add_to_working_image_def
  by (simp add: apply_mask_modification_applied(1)
        [OF example_with_preview_mask example_with_preview_pasted])
     (simp add: ImageChops_add_def chop_def add_px_def example_preview_def
        example_with_preview_def example_gui_def upt_rec)

theorem add_then_subtract_restores_mask_witness:
  "wellformed (working_mask example_with_preview)
   \<and> preview_mask no_ink example_with_preview = Some example_preview
   \<and> working_mask (add_to_working_image no_ink example_with_preview) =
       \<lparr>width = 2, height = 2, pix = [255, 10, 200, 255]\<rparr>
   \<and> working_mask (subtract_from_working_image no_ink
        (add_to_working_image no_ink example_with_preview)) =
       \<lparr>width = 2, height = 2, pix = [0, 10, 200, 0]\<rparr>"
proof -
  have nosat: "\<forall>t. paste (Image_new (im_size (working_mask example_with_preview)) 0)
                  example_preview (paste_box example_with_preview) = Inr t \<longrightarrow>
                (\<forall>i<width (working_mask example_with_preview)
                       * height (working_mask example_with_preview).
                   unat (pix (working_mask example_with_preview) ! i) + unat (pix t ! i) \<le> 255)"
    unfolding example_with_preview_pasted
    by (simp add: example_preview_def example_with_preview_def example_gui_def all_less_4)
  show ?thesis
    using example_with_preview_wellformed example_with_preview_mask example_with_preview_added
      add_then_subtract_restores_mask
        [OF example_with_preview_wellformed example_with_preview_mask nosat]
    by (simp add: example_with_preview_def example_gui_def)
qed

section \<open>Undo and redo\<close>


lemma undo_fields:
  "working_mask (undo s) =
     (if 1 < length (undo_history_mask s) then last (butlast (undo_history_mask s))
      else working_mask s)"
  "undo_history_mask (undo s) =
     (if 1 < length (undo_history_mask s) then butlast (undo_history_mask s)
      else undo_history_mask s)"
  "redo_history_mask (undo s) =
     (if 1 < length (undo_history_mask s) then redo_history_mask s @ [last (undo_history_mask s)]
      else redo_history_mask s)"
  by (simp_all add: undo_def Let_def add_drop_shadow_frame regenerate_smart_blur_frame)

lemma redo_fields:
  "working_mask (redo s) =
     (if redo_history_mask s \<noteq> [] then last (redo_history_mask s) else working_mask s)"
  "undo_history_mask (redo s) =
     (if redo_history_mask s \<noteq> [] then undo_history_mask s @ [last (redo_history_mask s)]
      else undo_history_mask s)"
  "redo_history_mask (redo s) =
     (if redo_history_mask s \<noteq> [] then butlast (redo_history_mask s) else redo_history_mask s)"
  by (simp_all add: redo_def Let_def add_drop_shadow_frame regenerate_smart_blur_frame)

lemma clear_working_image_fields:
  "working_mask (clear_working_image s) = Image_new (im_size (original_image s)) 0"
  "undo_history_mask (clear_working_image s) =
     undo_history_mask (add_undo_step (s\<lparr>working_mask := Image_new (im_size (original_image s)) 0\<rparr>))"
  "redo_history_mask (clear_working_image s) = []"
  by (simp_all add: clear_working_image_def Let_def update_output_image_preview_frame
        add_undo_step_frame add_undo_step_def)

lemma copy_entire_image_fields:
  "working_mask (copy_entire_image s) = Image_new (im_size (original_image s)) 255"
  "undo_history_mask (copy_entire_image s) =
     undo_history_mask (add_undo_step (s\<lparr>working_mask := Image_new (im_size (original_image s)) 255\<rparr>))"
  "redo_history_mask (copy_entire_image s) = []"
  by (simp_all add: copy_entire_image_def add_drop_shadow_frame add_undo_step_frame)

lemma mutate_pushes:
  assumes "m = Add \<or> m = Subtract \<longrightarrow> mask_applies ink s"
  shows "undo_history_mask (mutate ink m s) =
           undo_history_mask (add_undo_step (s\<lparr>working_mask := working_mask (mutate ink m s)\<rparr>))"
proof (cases m)
  case Add
  with assms obtain p t where pt: "preview_mask ink s = Some p"
      "paste (Image_new (im_size (working_mask s)) 0) p (paste_box s) = Inr t"
    by (auto simp: mask_applies_def split: option.splits sum.splits)
  show ?thesis
    using apply_mask_modification_applied [OF pt, of ImageChops_add]
    by (simp add: Add add_to_working_image_def)
next
  case Subtract
  with assms obtain p t where pt: "preview_mask ink s = Some p"
      "paste (Image_new (im_size (working_mask s)) 0) p (paste_box s) = Inr t"
    by (auto simp: mask_applies_def split: option.splits sum.splits)
  show ?thesis
    using apply_mask_modification_applied [OF pt, of ImageChops_subtract]
    by (simp add: Subtract subtract_from_working_image_def)
next
  case Clear
  then show ?thesis by (simp add: clear_working_image_fields)
next
  case Copy_all
  then show ?thesis by (simp add: copy_entire_image_fields)
qed

text \<open>
  Claim C2. In a document whose undo stack is not empty and has the working mask on top
  (every document the program reaches), after one mutation that takes effect (add or
  subtract of a preview or painted mask that is applied, clear, copy-all), \<open>undo\<close>
  gives back the working mask of before the mutation, pixel for pixel, and \<open>redo\<close> after
  that \<open>undo\<close> gives back the working mask of after the mutation.
\<close>

theorem undo_redo_after_mutation:
  assumes inv: "history_inv s"
    and eff: "m = Add \<or> m = Subtract \<longrightarrow> mask_applies ink s"
  shows "working_mask (undo (mutate ink m s)) = working_mask s
       \<and> working_mask (redo (undo (mutate ink m s))) = working_mask (mutate ink m s)"
proof -
  let ?s' = "mutate ink m s"
  let ?p = "s\<lparr>working_mask := working_mask ?s'\<rparr>"
  have ne: "undo_history_mask ?p \<noteq> []" and top: "last (undo_history_mask ?p) = working_mask s"
    using inv by (simp_all add: history_inv_def)
  have h: "undo_history_mask ?s' = undo_history_mask (add_undo_step ?p)"
    using eff by (rule mutate_pushes)
  have len: "1 < length (undo_history_mask ?s')"
    unfolding h using ne by (rule add_undo_step_history(3))
  have prev: "last (butlast (undo_history_mask ?s')) = working_mask s"
    unfolding h using add_undo_step_history(4) [OF ne] top by simp
  have cur: "last (undo_history_mask ?s') = working_mask ?s'"
    unfolding h using add_undo_step_history(2) [of ?p] by simp
  have u: "working_mask (undo ?s') = working_mask s"
    using len prev by (simp add: undo_fields)
  have r: "redo_history_mask (undo ?s') = redo_history_mask ?s' @ [working_mask ?s']"
    using len cur by (simp add: undo_fields)
  have "working_mask (redo (undo ?s')) = working_mask ?s'"
    by (simp add: redo_fields r)
  with u show ?thesis by simp
qed

lemma history_inv_setup_image_display: "history_inv (setup_image_display s)"
  by (simp add: history_inv_def setup_image_display_def Let_def)

lemma history_inv_mutate: "history_inv s \<Longrightarrow> history_inv (mutate ink m s)"
proof (cases "m = Add \<or> m = Subtract \<longrightarrow> mask_applies ink s")
  case True
  let ?p = "s\<lparr>working_mask := working_mask (mutate ink m s)\<rparr>"
  have "undo_history_mask (mutate ink m s) = undo_history_mask (add_undo_step ?p)"
    using True by (rule mutate_pushes)
  then show ?thesis
    using add_undo_step_history(1,2) [of ?p] by (simp add: history_inv_def)
next
  case False
  assume inv: "history_inv s"
  from False have m: "m = Add \<or> m = Subtract" and na: "\<not> mask_applies ink s" by auto
  have "undo_history_mask (apply_mask_modification ink operation s) = undo_history_mask s
      \<and> working_mask (apply_mask_modification ink operation s) = working_mask s" for operation
    using na by (auto simp: mask_applies_def apply_mask_modification_def Let_def
        split: option.splits sum.splits)
  with m inv show ?thesis
    by (auto simp: history_inv_def add_to_working_image_def subtract_from_working_image_def)
qed

lemma history_inv_initialise_new_image: "history_inv (initialise_new_image img s)"
proof (cases "update_input_image_preview
                (setup_image_display ((s\<lparr>original_image := img\<rparr>)\<lparr>cached_blur_image := None\<rparr>))")
  case (Inl e)
  then show ?thesis
    by (simp add: initialise_new_image_def Let_def history_inv_setup_image_display)
next
  case (Inr s3)
  then show ?thesis
    by (simp add: initialise_new_image_def Let_def history_inv_def)
qed

lemma history_inv_undo: "history_inv s \<Longrightarrow> history_inv (undo s)"
  by (cases "undo_history_mask s" rule: rev_cases)
     (auto simp: history_inv_def undo_fields)

lemma history_inv_redo: "history_inv s \<Longrightarrow> history_inv (redo s)"
  by (auto simp: history_inv_def redo_fields)


theorem undo_redo_after_mutation_witness:
  "history_inv example_with_preview
   \<and> mask_applies no_ink example_with_preview
   \<and> working_mask (undo (mutate no_ink Add example_with_preview)) =
       \<lparr>width = 2, height = 2, pix = [0, 10, 200, 0]\<rparr>
   \<and> working_mask (redo (undo (mutate no_ink Add example_with_preview))) =
       \<lparr>width = 2, height = 2, pix = [255, 10, 200, 255]\<rparr>"
proof -
  have inv: "history_inv example_with_preview"
    by (simp add: history_inv_def example_with_preview_def example_gui_def)
  have app: "mask_applies no_ink example_with_preview"
    by (simp add: mask_applies_def example_with_preview_mask example_with_preview_pasted)
  then have eff: "Add = Add \<or> Add = Subtract \<longrightarrow> mask_applies no_ink example_with_preview"
    by simp
  show ?thesis
    using inv app undo_redo_after_mutation [OF inv eff] example_with_preview_added
    by (simp add: example_with_preview_def example_gui_def)
qed

section \<open>Zoom and pan\<close>


lemma update_output_image_preview_view:
  "zoom_factor (update_output_image_preview s) = zoom_factor s"
  "lowest_zoom_factor (update_output_image_preview s) = lowest_zoom_factor s"
  "view_x (update_output_image_preview s) = view_x s"
  "view_y (update_output_image_preview s) = view_y s"
  "canvas_w (update_output_image_preview s) = canvas_w s"
  "canvas_h (update_output_image_preview s) = canvas_h s"
  "original_image (update_output_image_preview s) = original_image s"
  "min_zoom (update_output_image_preview s) = min_zoom s"
  "orig_image_crop (update_output_image_preview s) = orig_image_crop s"
  by (simp_all add: update_output_image_preview_def apply_background_color_def Let_def
        regenerate_smart_blur_def split: option.splits)

lemma update_input_image_preview_view:
  assumes "update_input_image_preview s = Inr s'"
  shows "zoom_factor s' = zoom_factor s" "lowest_zoom_factor s' = lowest_zoom_factor s"
    "view_x s' = view_x s" "view_y s' = view_y s"
    "canvas_w s' = canvas_w s" "canvas_h s' = canvas_h s"
    "original_image s' = original_image s" "min_zoom s' = min_zoom s"
  using assms
  by (auto simp: update_input_image_preview_def update_output_image_preview_view
      split: sum.splits)

lemma clear_coord_overlay_view:
  "zoom_factor (clear_coord_overlay s) = zoom_factor s"
  "lowest_zoom_factor (clear_coord_overlay s) = lowest_zoom_factor s"
  "view_x (clear_coord_overlay s) = view_x s"
  "view_y (clear_coord_overlay s) = view_y s"
  "canvas_w (clear_coord_overlay s) = canvas_w s"
  "canvas_h (clear_coord_overlay s) = canvas_h s"
  "original_image (clear_coord_overlay s) = original_image s"
  "min_zoom (clear_coord_overlay s) = min_zoom s"
  by (simp_all add: clear_coord_overlay_def)

lemma mark_min_zoom_view:
  "zoom_factor (mark_min_zoom s) = zoom_factor s"
  "lowest_zoom_factor (mark_min_zoom s) = lowest_zoom_factor s"
  "view_x (mark_min_zoom s) = view_x s"
  "view_y (mark_min_zoom s) = view_y s"
  "canvas_w (mark_min_zoom s) = canvas_w s"
  "canvas_h (mark_min_zoom s) = canvas_h s"
  "original_image (mark_min_zoom s) = original_image s"
  by (simp_all add: mark_min_zoom_def)

lemma zoom_view:
  "zoom_factor (zoom e s) = zoom_factor (zoom_assign e s)"
  "lowest_zoom_factor (zoom e s) = lowest_zoom_factor (zoom_assign e s)"
  "view_x (zoom e s) = view_x (zoom_assign e s)"
  "view_y (zoom e s) = view_y (zoom_assign e s)"
  "canvas_w (zoom e s) = canvas_w (zoom_assign e s)"
  "canvas_h (zoom e s) = canvas_h (zoom_assign e s)"
  "original_image (zoom e s) = original_image (zoom_assign e s)"
  by (simp_all add: zoom_def Let_def mark_min_zoom_view clear_coord_overlay_view
      update_input_image_preview_view split: sum.splits)
























section \<open>Thresholds\<close>








lemma py_int_add_nat:
  assumes "0 \<le> x"
  shows "py_int (x + real n) = py_int x + int n"
proof -
  have "\<lfloor>x + real n\<rfloor> = \<lfloor>x\<rfloor> + int n"
    by linarith
  then show ?thesis using assms by (simp add: py_int_def)
qed


lemma paste_box_nonneg:
  assumes "0 \<le> view_x s" "0 \<le> view_y s"
  shows "paste_box s = (py_int (view_x s), py_int (view_y s),
           py_int (view_x s) + int (width (orig_image_crop s)),
           py_int (view_y s) + int (height (orig_image_crop s)))"
  using assms by (simp add: paste_box_def py_int_add_nat)

lemma crop_ok:
  assumes "l \<le> r" "t \<le> b"
  shows "\<exists>m. crop im (l, t, r, b) = Inr m \<and> width m = nat (r - l) \<and> height m = nat (b - t)
           \<and> length (pix m) = nat (r - l) * nat (b - t)"
  using assms by (simp add: crop_def Let_def)










section \<open>Size of the preview masks\<close>


lemma py_int_add_int:
  assumes "0 \<le> x" "0 \<le> k"
  shows "py_int (x + real_of_int k) = py_int x + k"
proof -
  have "\<lfloor>x + real_of_int k\<rfloor> = \<lfloor>x\<rfloor> + k" by linarith
  moreover have "0 \<le> x + real_of_int k" using assms by simp
  ultimately show ?thesis using assms by (simp add: py_int_def)
qed

lemma calculate_preview_image_size:
  assumes "0 \<le> view_x s" "0 \<le> view_y s"
    and "0 \<le> \<lceil>real_of_int (canvas_w s) / zoom_factor s\<rceil>"
    and "0 \<le> \<lceil>real_of_int (canvas_h s) / zoom_factor s\<rceil>"
  shows "\<exists>c. calculate_preview_image s img = Inr c
           \<and> width c = nat (min \<lceil>real_of_int (canvas_w s) / zoom_factor s\<rceil> (int (width img)))
           \<and> height c = nat (min \<lceil>real_of_int (canvas_h s) / zoom_factor s\<rceil> (int (height img)))"
proof -
  define kw where "kw = min \<lceil>real_of_int (canvas_w s) / zoom_factor s\<rceil> (int (width img))"
  define kh where "kh = min \<lceil>real_of_int (canvas_h s) / zoom_factor s\<rceil> (int (height img))"
  define l where "l = py_int (view_x s)"
  define t where "t = py_int (view_y s)"
  have kw: "0 \<le> kw" and kh: "0 \<le> kh" using assms(3,4) by (simp_all add: kw_def kh_def)
  have r: "py_int (view_x s + real_of_int kw) = l + kw"
    unfolding l_def using assms(1) kw by (rule py_int_add_int)
  have b: "py_int (view_y s + real_of_int kh) = t + kh"
    unfolding t_def using assms(2) kh by (rule py_int_add_int)
  have eq: "calculate_preview_image s img = crop img (l, t, l + kw, t + kh)"
    by (simp only: calculate_preview_image_def Let_def kw_def [symmetric] kh_def [symmetric]
          r b l_def [symmetric] t_def [symmetric])
  have le: "l \<le> l + kw" "t \<le> t + kh" using kw kh by simp_all
  obtain c where c: "crop img (l, t, l + kw, t + kh) = Inr c"
      "width c = nat (l + kw - l)" "height c = nat (t + kh - t)"
    using crop_ok [OF le, of img] by blast
  have wc: "width c = nat kw" "height c = nat kh" using c(2,3) by simp_all
  have "calculate_preview_image s img = Inr c" using eq c(1) by simp
  then have "calculate_preview_image s img = Inr c \<and> width c = nat kw \<and> height c = nat kh"
    using wc by simp
  then show ?thesis unfolding kw_def kh_def by (rule exI)
qed


lemma update_output_image_preview_preview:
  "raw_model_mask (update_output_image_preview s) = raw_model_mask s"
  "raw_sam_logits (update_output_image_preview s) = raw_sam_logits s"
  "sam_active (update_output_image_preview s) = sam_active s"
  by (simp_all add: update_output_image_preview_def apply_background_color_def Let_def
        regenerate_smart_blur_def split: option.splits)

lemma update_input_image_preview_crop:
  assumes "calculate_preview_image s (original_image s) = Inr c"
  shows "\<exists>s'. update_input_image_preview s = Inr s' \<and> orig_image_crop s' = c
           \<and> raw_model_mask s' = raw_model_mask s \<and> sam_active s' = sam_active s
           \<and> paint_mode s' = paint_mode s \<and> working_mask s' = working_mask s
           \<and> model_output_mask s' = model_output_mask s \<and> lines s' = lines s
           \<and> zoom_factor s' = zoom_factor s \<and> lowest_zoom_factor s' = lowest_zoom_factor s
           \<and> view_x s' = view_x s \<and> view_y s' = view_y s"
  using assms
  by (simp add: update_input_image_preview_def update_output_image_preview_frame
        update_output_image_preview_view update_output_image_preview_preview)

lemma zoom_in_recrops:
  assumes nm: "\<not> min_zoom (zoom_assign e s)"
    and c: "calculate_preview_image (zoom_assign e s) (original_image s) = Inr c"
  shows "orig_image_crop (zoom e s) = c"
    and "raw_model_mask (zoom e s) = raw_model_mask s"
    and "sam_active (zoom e s) = sam_active s"
    and "paint_mode (zoom e s) = paint_mode s"
    and "working_mask (zoom e s) = working_mask s"
    and "model_output_mask (zoom e s) = Some (Image_new (im_size c) 0)"
proof -
  let ?a = "zoom_assign e s"
  have orig: "original_image ?a = original_image s"
    by (simp add: zoom_assign_def Let_def)
  obtain s' where s': "update_input_image_preview ?a = Inr s'" "orig_image_crop s' = c"
      "raw_model_mask s' = raw_model_mask ?a" "sam_active s' = sam_active ?a"
      "paint_mode s' = paint_mode ?a" "working_mask s' = working_mask ?a"
    using update_input_image_preview_crop [of ?a c] c orig by auto
  have z: "zoom e s = mark_min_zoom (clear_coord_overlay s')"
    using nm s'(1) by (simp add: zoom_def Let_def)
  have a: "raw_model_mask ?a = raw_model_mask s" "sam_active ?a = sam_active s"
    "paint_mode ?a = paint_mode s" "working_mask ?a = working_mask s"
    by (simp_all add: zoom_assign_def Let_def)
  show "orig_image_crop (zoom e s) = c"
    by (simp add: z mark_min_zoom_def clear_coord_overlay_def s'(2))
  show "raw_model_mask (zoom e s) = raw_model_mask s"
    by (simp add: z mark_min_zoom_def clear_coord_overlay_def s'(3) a)
  show "sam_active (zoom e s) = sam_active s"
    by (simp add: z mark_min_zoom_def clear_coord_overlay_def s'(4) a)
  show "paint_mode (zoom e s) = paint_mode s"
    by (simp add: z mark_min_zoom_def clear_coord_overlay_def s'(5) a)
  show "working_mask (zoom e s) = working_mask s"
    by (simp add: z mark_min_zoom_def clear_coord_overlay_def s'(6) a)
  show "model_output_mask (zoom e s) = Some (Image_new (im_size c) 0)"
    by (simp add: z mark_min_zoom_def clear_coord_overlay_def s'(2))
qed

lemma run_whole_image_model_fields:
  assumes "\<not> paint_mode s"
  shows "raw_model_mask (run_whole_image_model filt infer s) =
           Some \<lparr>width = width (orig_image_crop s), height = height (orig_image_crop s),
                 pix = map (infer (orig_image_crop s))
                         [0..<width (orig_image_crop s) * height (orig_image_crop s)]\<rparr>"
    and "model_output_mask (run_whole_image_model filt infer s) =
           Some (point (\<lambda>p. if whole_threshold 50 < uint p then 255 else 0)
                  \<lparr>width = width (orig_image_crop s), height = height (orig_image_crop s),
                   pix = map (infer (orig_image_crop s))
                           [0..<width (orig_image_crop s) * height (orig_image_crop s)]\<rparr>)"
    and "sam_active (run_whole_image_model filt infer s) = False"
    and "paint_mode (run_whole_image_model filt infer s) = False"
    and "orig_image_crop (run_whole_image_model filt infer s) = orig_image_crop s"
    and "original_image (run_whole_image_model filt infer s) = original_image s"
    and "working_mask (run_whole_image_model filt infer s) = working_mask s"
    and "zoom_factor (run_whole_image_model filt infer s) = zoom_factor s"
    and "lowest_zoom_factor (run_whole_image_model filt infer s) = lowest_zoom_factor s"
    and "min_zoom (run_whole_image_model filt infer s) = min_zoom s"
    and "view_x (run_whole_image_model filt infer s) = view_x s"
    and "view_y (run_whole_image_model filt infer s) = view_y s"
    and "canvas_w (run_whole_image_model filt infer s) = canvas_w s"
    and "canvas_h (run_whole_image_model filt infer s) = canvas_h s"
  using assms
  by (simp_all add: run_whole_image_model_def Let_def clear_coord_overlay_def
        on_unified_slider_change_def update_mask_threshold_def)

lemma update_mask_threshold_fields:
  assumes "\<not> sam_active s" "raw_model_mask s = Some raw"
  shows "model_output_mask (on_unified_slider_change filt v s) =
           Some (point (\<lambda>p. if whole_threshold v < uint p then 255 else 0) raw)"
    and "orig_image_crop (on_unified_slider_change filt v s) = orig_image_crop s"
    and "paint_mode (on_unified_slider_change filt v s) = paint_mode s"
    and "working_mask (on_unified_slider_change filt v s) = working_mask s"
    and "view_x (on_unified_slider_change filt v s) = view_x s"
    and "view_y (on_unified_slider_change filt v s) = view_y s"
  using assms
  by (simp_all add: on_unified_slider_change_def update_mask_threshold_def)


lemma photo_size: "width photo = 100" "height photo = 80"
  by (simp_all add: photo_def Image_new_def)

lemma photo_gui_fields:
  "paint_mode photo_gui = False" "orig_image_crop photo_gui = photo"
  "original_image photo_gui = photo" "zoom_factor photo_gui = 1 / 2"
  "lowest_zoom_factor photo_gui = 1 / 2" "min_zoom photo_gui = True"
  "view_x photo_gui = 0" "view_y photo_gui = 0"
  "canvas_w photo_gui = 50" "canvas_h photo_gui = 40"
  "working_mask photo_gui = Image_new (100, 80) 0"
  by (simp_all add: photo_gui_def example_gui_def)

lemma after_model_fields:
  "raw_model_mask after_model =
     Some \<lparr>width = 100, height = 80, pix = map (flat_model photo) [0..<100 * 80]\<rparr>"
  "sam_active after_model = False" "paint_mode after_model = False"
  "original_image after_model = photo" "working_mask after_model = Image_new (100, 80) 0"
  "zoom_factor after_model = 1 / 2" "lowest_zoom_factor after_model = 1 / 2"
  "min_zoom after_model = True" "view_x after_model = 0" "view_y after_model = 0"
  "canvas_w after_model = 50" "canvas_h after_model = 40"
  unfolding after_model_def
  by (simp_all only: run_whole_image_model_fields photo_gui_fields photo_size
        simp_thms)


lemma after_zoom_assign:
  "zoom_factor (zoom_assign (wheel_up 0 0) after_model) = 6 / 10"
  "min_zoom (zoom_assign (wheel_up 0 0) after_model) = False"
  "view_x (zoom_assign (wheel_up 0 0) after_model) = 0"
  "view_y (zoom_assign (wheel_up 0 0) after_model) = 0"
  "canvas_w (zoom_assign (wheel_up 0 0) after_model) = 50"
  "canvas_h (zoom_assign (wheel_up 0 0) after_model) = 40"
  by (simp_all add: zoom_assign_def Let_def new_zoom_factor_def wheel_up_def clamp_view_def
        after_model_fields photo_size DEFAULT_ZOOM_FACTOR_def MAX_ZOOM_FACTOR_def)

lemma after_zoom_crop:
  "\<exists>c. calculate_preview_image (zoom_assign (wheel_up 0 0) after_model) photo = Inr c
       \<and> width c = 84 \<and> height c = 67"
proof -
  let ?a = "zoom_assign (wheel_up 0 0) after_model"
  have w: "\<lceil>real_of_int (canvas_w ?a) / zoom_factor ?a\<rceil> = 84"
    and h: "\<lceil>real_of_int (canvas_h ?a) / zoom_factor ?a\<rceil> = 67"
    by (simp_all add: after_zoom_assign ceiling_eq_iff)
  have "\<exists>c. calculate_preview_image ?a photo = Inr c
      \<and> width c = nat (min \<lceil>real_of_int (canvas_w ?a) / zoom_factor ?a\<rceil> (int (width photo)))
      \<and> height c = nat (min \<lceil>real_of_int (canvas_h ?a) / zoom_factor ?a\<rceil> (int (height photo)))"
    by (rule calculate_preview_image_size) (simp_all add: after_zoom_assign w h)
  then show ?thesis
    by (simp add: w h photo_size)
qed

lemma after_zoom_fields:
  "im_size (orig_image_crop after_zoom) = (84, 67)"
  "raw_model_mask after_zoom =
     Some \<lparr>width = 100, height = 80, pix = map (flat_model photo) [0..<100 * 80]\<rparr>"
  "sam_active after_zoom = False" "paint_mode after_zoom = False"
  "working_mask after_zoom = Image_new (100, 80) 0"
  "view_x after_zoom = 0" "view_y after_zoom = 0"
proof -
  let ?a = "zoom_assign (wheel_up 0 0) after_model"
  obtain c where c: "calculate_preview_image ?a photo = Inr c" "width c = 84" "height c = 67"
    using after_zoom_crop by blast
  have nm: "\<not> min_zoom ?a" by (simp add: after_zoom_assign)
  have c': "calculate_preview_image ?a (original_image after_model) = Inr c"
    using c(1) by (simp add: after_model_fields)
  note z = zoom_in_recrops [OF nm c']
  show "im_size (orig_image_crop after_zoom) = (84, 67)"
    unfolding after_zoom_def z(1) by (simp add: im_size_def c)
  show "raw_model_mask after_zoom =
     Some \<lparr>width = 100, height = 80, pix = map (flat_model photo) [0..<100 * 80]\<rparr>"
    unfolding after_zoom_def z(2) by (rule after_model_fields)
  show "sam_active after_zoom = False" unfolding after_zoom_def z(3) by (rule after_model_fields)
  show "paint_mode after_zoom = False" unfolding after_zoom_def z(4) by (rule after_model_fields)
  show "working_mask after_zoom = Image_new (100, 80) 0"
    unfolding after_zoom_def z(5) by (rule after_model_fields)
  show "view_x after_zoom = 0"
    unfolding after_zoom_def by (simp add: zoom_view after_zoom_assign)
  show "view_y after_zoom = 0"
    unfolding after_zoom_def by (simp add: zoom_view after_zoom_assign)
qed


lemma generate_paint_mode_mask_size:
  "im_size (generate_paint_mode_mask ink s) = im_size (orig_image_crop s)"
  by (simp add: generate_paint_mode_mask_def im_size_def Let_def)

lemma update_sam_threshold_size:
  assumes "raw_sam_logits s = Some logits" "0 \<le> view_x s" "0 \<le> view_y s"
  shows "map_option im_size (model_output_mask (update_sam_threshold filt t s)) =
           Some (im_size (orig_image_crop s))"
proof -
  let ?full = "\<lparr>width = width logits, height = height logits,
                 pix = map (\<lambda>l. if t < l then 255 else (0::pixel)) (pix logits)\<rparr>"
  let ?l = "py_int (view_x s)" and ?t = "py_int (view_y s)"
  let ?w = "width (orig_image_crop s)" and ?h = "height (orig_image_crop s)"
  have box: "paste_box s = (?l, ?t, ?l + int ?w, ?t + int ?h)"
    using assms(2,3) by (rule paste_box_nonneg)
  obtain m where m: "crop ?full (?l, ?t, ?l + int ?w, ?t + int ?h) = Inr m"
      "width m = ?w" "height m = ?h"
    using crop_ok [of ?l "?l + int ?w" ?t "?t + int ?h" ?full] by auto
  show ?thesis
    using assms(1) by (simp add: update_sam_threshold_def Let_def box m im_size_def)
qed

lemma run_whole_image_model_size:
  assumes "\<not> paint_mode s"
  shows "map_option im_size (model_output_mask (run_whole_image_model filt infer s)) =
           Some (im_size (orig_image_crop (run_whole_image_model filt infer s)))"
  using assms by (simp add: run_whole_image_model_fields point_def im_size_def)

text \<open>
  Claim C10 fails on the code. After the whole-image model has run on the visible crop of
  100 by 80 pixels, one zoom step makes the visible crop 84 by 67 pixels; moving the
  threshold slider then generates a preview mask from the stored raw map, still 100 by 80
  pixels. Adding it to the mask raises in the paste and only sets the status line.
\<close>

theorem whole_image_preview_stale_after_zoom:
  "map_option im_size (model_output_mask after_model) = Some (im_size (orig_image_crop after_model))
   \<and> im_size (orig_image_crop stale_preview_gui) = (84, 67)
   \<and> map_option im_size (model_output_mask stale_preview_gui) = Some (100, 80)
   \<and> add_to_working_image no_ink stale_preview_gui =
       stale_preview_gui\<lparr>status_label := ''Error applying mask: images do not match''\<rparr>"
proof -
  let ?raw = "\<lparr>width = 100, height = 80, pix = map (flat_model photo) [0..<100 * 80]\<rparr>"
  let ?m = "point (\<lambda>p. if whole_threshold 60 < uint p then 255 else 0) ?raw"
  have ns: "\<not> sam_active after_zoom" by (simp add: after_zoom_fields)
  note u = update_mask_threshold_fields [OF ns after_zoom_fields(2), of first_pixel 60]
  have a: "map_option im_size (model_output_mask after_model)
             = Some (im_size (orig_image_crop after_model))"
    unfolding after_model_def
    by (rule run_whole_image_model_size) (simp add: photo_gui_fields)
  have crop: "im_size (orig_image_crop stale_preview_gui) = (84, 67)"
    unfolding stale_preview_gui_def u(2) by (rule after_zoom_fields)
  have out: "model_output_mask stale_preview_gui = Some ?m"
    unfolding stale_preview_gui_def by (rule u(1))
  have msz: "width ?m = 100" "height ?m = 80"
    by (simp_all add: point_def)
  have pre: "preview_mask no_ink stale_preview_gui = Some ?m"
    unfolding preview_mask_def out
    by (simp add: stale_preview_gui_def u(3) after_zoom_fields)
  have vx: "view_x stale_preview_gui = 0" and vy: "view_y stale_preview_gui = 0"
    unfolding stale_preview_gui_def u(5,6) by (rule after_zoom_fields)+
  have cw: "width (orig_image_crop stale_preview_gui) = 84"
    and "height (orig_image_crop stale_preview_gui) = 67"
    using crop by (simp_all add: im_size_def)
  then have box: "paste_box stale_preview_gui = (0, 0, 84, 67)"
    by (simp add: paste_box_def vx vy py_int_def)
  have err: "paste (Image_new (im_size (working_mask stale_preview_gui)) 0) ?m
               (paste_box stale_preview_gui) = Inl (ValueError ''images do not match'')"
    unfolding box by (simp add: paste_def point_def)
  have "add_to_working_image no_ink stale_preview_gui =
      stale_preview_gui\<lparr>status_label :=
        ''Error applying mask: '' @ error_text (ValueError ''images do not match'')\<rparr>"
    unfolding add_to_working_image_def using pre err by (rule apply_mask_modification_error)
  then have add: "add_to_working_image no_ink stale_preview_gui =
      stale_preview_gui\<lparr>status_label := ''Error applying mask: images do not match''\<rparr>"
    by (simp add: error_text_def)
  show ?thesis
    using a crop add by (simp add: out im_size_def point_def)
qed

section \<open>Shadow cache\<close>


lemma update_output_image_preview_shadow:
  "cached_blurred_shadow (update_output_image_preview s) = cached_blurred_shadow s"
  "last_shadow_radius (update_output_image_preview s) = last_shadow_radius s"
  "working_image (update_output_image_preview s) = working_image s"
  "enable_shadow_var (update_output_image_preview s) = enable_shadow_var s"
  "shadow_radius_slider (update_output_image_preview s) = shadow_radius_slider s"
  by (simp_all add: update_output_image_preview_def apply_background_color_def Let_def
        regenerate_smart_blur_def split: option.splits)

lemma add_drop_shadow_enabled:
  assumes "enable_shadow_var s"
  shows "cached_blurred_shadow (add_drop_shadow s) =
           Some (case (if last_shadow_radius s \<noteq> Some (py_int (shadow_radius_slider s))
                       then None else cached_blurred_shadow s) of
                   None \<Rightarrow> blurred_shadow (working_mask s) (py_int (shadow_radius_slider s))
                 | Some c \<Rightarrow> c)"
    and "last_shadow_radius (add_drop_shadow s) = Some (py_int (shadow_radius_slider s))"
    and "working_image (add_drop_shadow s) =
           Alpha_composite
             (Shadow_layer (im_size (original_image s))
                (Point_mul (shadow_opacity_slider s)
                   (case (if last_shadow_radius s \<noteq> Some (py_int (shadow_radius_slider s))
                          then None else cached_blurred_shadow s) of
                      None \<Rightarrow> blurred_shadow (working_mask s) (py_int (shadow_radius_slider s))
                    | Some c \<Rightarrow> c))
                (py_int (shadow_x_slider s), py_int (shadow_y_slider s)))
             (working_image (cutout_working_image s))"
  using assms
  by (simp_all add: add_drop_shadow_def Let_def update_output_image_preview_shadow
        cutout_working_image_def pic_size.simps split: option.splits)

lemma undo_keeps_shadow_cache:
  assumes "1 < length (undo_history_mask s)" and "enable_shadow_var s"
    and "cached_blurred_shadow s = Some c"
    and "last_shadow_radius s = Some (py_int (shadow_radius_slider s))"
  shows "cached_blurred_shadow (undo s) = Some c"
    and "working_mask (undo s) = last (butlast (undo_history_mask s))"
proof -
  let ?s1 = "s\<lparr>undo_history_mask := butlast (undo_history_mask s),
               redo_history_mask := redo_history_mask s @ [last (undo_history_mask s)],
               working_mask := last (butlast (undo_history_mask s))\<rparr>"
  let ?s2 = "if bg_mode ?s1 = ''blur'' then regenerate_smart_blur ?s1 else ?s1"
  have s2: "enable_shadow_var ?s2" "cached_blurred_shadow ?s2 = Some c"
    "last_shadow_radius ?s2 = Some (py_int (shadow_radius_slider ?s2))"
    using assms(2-4) by (simp_all add: regenerate_smart_blur_def Let_def)
  have u: "undo s = (add_drop_shadow ?s2)\<lparr>status_label := ''Undo performed''\<rparr>"
    using assms(1) by (simp add: undo_def Let_def)
  show "cached_blurred_shadow (undo s) = Some c"
    unfolding u using add_drop_shadow_enabled(1) [OF s2(1)] s2(2,3) by simp
  show "working_mask (undo s) = last (butlast (undo_history_mask s))"
    using assms(1) by (simp add: undo_fields)
qed


lemma regenerate_smart_blur_shadow:
  "cached_blurred_shadow (regenerate_smart_blur s) = cached_blurred_shadow s"
  "last_shadow_radius (regenerate_smart_blur s) = last_shadow_radius s"
  "enable_shadow_var (regenerate_smart_blur s) = enable_shadow_var s"
  "shadow_radius_slider (regenerate_smart_blur s) = shadow_radius_slider s"
  "shadow_opacity_slider (regenerate_smart_blur s) = shadow_opacity_slider s"
  "shadow_x_slider (regenerate_smart_blur s) = shadow_x_slider s"
  "shadow_y_slider (regenerate_smart_blur s) = shadow_y_slider s"
  "soften_mask_var (regenerate_smart_blur s) = soften_mask_var s"
  "blur_radius_var (regenerate_smart_blur s) = blur_radius_var s"
  by (simp_all add: regenerate_smart_blur_def Let_def)

lemma add_drop_shadow_settings:
  "enable_shadow_var (add_drop_shadow s) = enable_shadow_var s"
  "shadow_radius_slider (add_drop_shadow s) = shadow_radius_slider s"
  by (simp_all add: add_drop_shadow_def Let_def update_output_image_preview_shadow
        cutout_working_image_def)

lemma apply_mask_modification_shadow:
  assumes "preview_mask ink s = Some p"
    and "paste (Image_new (im_size (working_mask s)) 0) p (paste_box s) = Inr t"
    and "enable_shadow_var s"
  shows "cached_blurred_shadow (apply_mask_modification ink operation s) =
           Some (blurred_shadow (operation (working_mask s) t) (py_int (shadow_radius_slider s)))"
    and "last_shadow_radius (apply_mask_modification ink operation s) =
           Some (py_int (shadow_radius_slider s))"
    and "enable_shadow_var (apply_mask_modification ink operation s)"
    and "shadow_radius_slider (apply_mask_modification ink operation s) = shadow_radius_slider s"
proof -
  let ?s2 = "(add_undo_step (s\<lparr>working_mask := operation (working_mask s) t\<rparr>))
               \<lparr>cached_blurred_shadow := None\<rparr>"
  let ?s3 = "if bg_mode ?s2 = ''blur'' then regenerate_smart_blur ?s2 else ?s2"
  have r: "apply_mask_modification ink operation s =
             (add_drop_shadow ?s3)\<lparr>status_label := ''Mask applied.''\<rparr>"
    using assms(1,2) by (simp add: apply_mask_modification_def Let_def)
  have s3: "enable_shadow_var ?s3" "cached_blurred_shadow ?s3 = None"
    "working_mask ?s3 = operation (working_mask s) t"
    "shadow_radius_slider ?s3 = shadow_radius_slider s"
    using assms(3)
    by (simp_all add: regenerate_smart_blur_shadow regenerate_smart_blur_frame
          add_undo_step_def Let_def)
  show "cached_blurred_shadow (apply_mask_modification ink operation s) =
           Some (blurred_shadow (operation (working_mask s) t) (py_int (shadow_radius_slider s)))"
    unfolding r using add_drop_shadow_enabled(1) [OF s3(1)] s3(2,3,4) by simp
  show "last_shadow_radius (apply_mask_modification ink operation s) =
           Some (py_int (shadow_radius_slider s))"
    unfolding r using add_drop_shadow_enabled(2) [OF s3(1)] s3(4) by simp
  show "enable_shadow_var (apply_mask_modification ink operation s)"
    unfolding r using s3(1) by (simp add: add_drop_shadow_settings)
  show "shadow_radius_slider (apply_mask_modification ink operation s) = shadow_radius_slider s"
    unfolding r using s3(4) by (simp add: add_drop_shadow_settings)
qed

lemma undo_composite:
  assumes "1 < length (undo_history_mask s)" and "enable_shadow_var s"
    and "cached_blurred_shadow s = Some c"
    and "last_shadow_radius s = Some (py_int (shadow_radius_slider s))"
    and "\<not> soften_mask_var s"
  shows "working_image (undo s) =
           Alpha_composite
             (Shadow_layer (im_size (original_image s)) (Point_mul (shadow_opacity_slider s) c)
                (py_int (shadow_x_slider s), py_int (shadow_y_slider s)))
             (Composite (Buffer (original_image s))
                (Buffer (Image_new (im_size (original_image s)) 0))
                (Plain (last (butlast (undo_history_mask s)))))"
proof -
  let ?s1 = "s\<lparr>undo_history_mask := butlast (undo_history_mask s),
               redo_history_mask := redo_history_mask s @ [last (undo_history_mask s)],
               working_mask := last (butlast (undo_history_mask s))\<rparr>"
  let ?s2 = "if bg_mode ?s1 = ''blur'' then regenerate_smart_blur ?s1 else ?s1"
  have s2: "enable_shadow_var ?s2" "cached_blurred_shadow ?s2 = Some c"
    "last_shadow_radius ?s2 = Some (py_int (shadow_radius_slider ?s2))"
    "shadow_opacity_slider ?s2 = shadow_opacity_slider s"
    "shadow_x_slider ?s2 = shadow_x_slider s" "shadow_y_slider ?s2 = shadow_y_slider s"
    "original_image ?s2 = original_image s"
    "working_mask ?s2 = last (butlast (undo_history_mask s))"
    "\<not> soften_mask_var ?s2"
    using assms(2-5)
    by (simp_all add: regenerate_smart_blur_shadow regenerate_smart_blur_frame)
  have u: "undo s = (add_drop_shadow ?s2)\<lparr>status_label := ''Undo performed''\<rparr>"
    using assms(1) by (simp add: undo_def Let_def)
  have cut: "working_image (cutout_working_image ?s2) =
      Composite (Buffer (original_image s)) (Buffer (Image_new (im_size (original_image s)) 0))
        (Plain (last (butlast (undo_history_mask s))))"
    using s2(7,8,9) by (simp add: cutout_working_image_def Let_def)
  show ?thesis
    unfolding u using add_drop_shadow_enabled(3) [OF s2(1)] s2(2-7) cut by simp
qed


lemma shadow_gui_fields:
  "preview_mask no_ink shadow_gui = Some example_preview"
  "paste (Image_new (im_size (working_mask shadow_gui)) 0) example_preview (paste_box shadow_gui)
     = Inr example_preview"
  "enable_shadow_var shadow_gui" "shadow_radius_slider shadow_gui = 10"
  "working_mask shadow_gui = \<lparr>width = 2, height = 2, pix = [0, 10, 200, 0]\<rparr>"
  "undo_history_mask shadow_gui = [\<lparr>width = 2, height = 2, pix = [0, 0, 0, 0]\<rparr>,
                                   \<lparr>width = 2, height = 2, pix = [0, 10, 200, 0]\<rparr>]"
proof -
  have e: "preview_mask no_ink shadow_gui = preview_mask no_ink example_with_preview"
    "paste_box shadow_gui = paste_box example_with_preview"
    "working_mask shadow_gui = working_mask example_with_preview"
    by (simp_all add: shadow_gui_def preview_mask_def paste_box_def
          generate_paint_mode_mask_def)
  show "preview_mask no_ink shadow_gui = Some example_preview"
    unfolding e by (rule example_with_preview_mask)
  show "paste (Image_new (im_size (working_mask shadow_gui)) 0) example_preview
          (paste_box shadow_gui) = Inr example_preview"
    unfolding e by (rule example_with_preview_pasted)
  show "enable_shadow_var shadow_gui" "shadow_radius_slider shadow_gui = 10"
    "working_mask shadow_gui = \<lparr>width = 2, height = 2, pix = [0, 10, 200, 0]\<rparr>"
    "undo_history_mask shadow_gui = [\<lparr>width = 2, height = 2, pix = [0, 0, 0, 0]\<rparr>,
                                     \<lparr>width = 2, height = 2, pix = [0, 10, 200, 0]\<rparr>]"
    by (simp_all add: shadow_gui_def example_with_preview_def example_gui_def)
qed

lemma added_mask:
  "ImageChops_add \<lparr>width = 2, height = 2, pix = [0, 10, 200, 0]\<rparr> example_preview =
     \<lparr>width = 2, height = 2, pix = [255, 10, 200, 255]\<rparr>"
  by (simp add: ImageChops_add_def chop_def add_px_def example_preview_def upt_rec)

lemma shadow_added_fields:
  "working_mask shadow_added = \<lparr>width = 2, height = 2, pix = [255, 10, 200, 255]\<rparr>"
  "undo_history_mask shadow_added =
     [\<lparr>width = 2, height = 2, pix = [0, 0, 0, 0]\<rparr>,
      \<lparr>width = 2, height = 2, pix = [0, 10, 200, 0]\<rparr>,
      \<lparr>width = 2, height = 2, pix = [255, 10, 200, 255]\<rparr>]"
  "cached_blurred_shadow shadow_added =
     Some (blurred_shadow \<lparr>width = 2, height = 2, pix = [255, 10, 200, 255]\<rparr> 10)"
  "last_shadow_radius shadow_added = Some (py_int (shadow_radius_slider shadow_added))"
  "enable_shadow_var shadow_added"
proof -
  note a = apply_mask_modification_applied [OF shadow_gui_fields(1,2), of ImageChops_add]
  note b = apply_mask_modification_shadow [OF shadow_gui_fields(1,2,3), of ImageChops_add]
  show "working_mask shadow_added = \<lparr>width = 2, height = 2, pix = [255, 10, 200, 255]\<rparr>"
    unfolding shadow_added_def add_to_working_image_def a(1)
    by (simp add: shadow_gui_fields(5) added_mask)
  show "undo_history_mask shadow_added =
     [\<lparr>width = 2, height = 2, pix = [0, 0, 0, 0]\<rparr>,
      \<lparr>width = 2, height = 2, pix = [0, 10, 200, 0]\<rparr>,
      \<lparr>width = 2, height = 2, pix = [255, 10, 200, 255]\<rparr>]"
    unfolding shadow_added_def add_to_working_image_def a(2)
    by (simp add: add_undo_step_def Let_def UNDO_STEPS_def shadow_gui_fields(5,6) added_mask)
  show "cached_blurred_shadow shadow_added =
     Some (blurred_shadow \<lparr>width = 2, height = 2, pix = [255, 10, 200, 255]\<rparr> 10)"
    unfolding shadow_added_def add_to_working_image_def b(1)
    by (simp add: shadow_gui_fields(4,5) added_mask py_int_def)
  show "last_shadow_radius shadow_added = Some (py_int (shadow_radius_slider shadow_added))"
    unfolding shadow_added_def add_to_working_image_def b(2) b(4) ..
  show "enable_shadow_var shadow_added"
    unfolding shadow_added_def add_to_working_image_def by (rule b(3))
qed


lemma update_output_image_preview_settings:
  "soften_mask_var (update_output_image_preview s) = soften_mask_var s"
  "shadow_opacity_slider (update_output_image_preview s) = shadow_opacity_slider s"
  "shadow_x_slider (update_output_image_preview s) = shadow_x_slider s"
  "shadow_y_slider (update_output_image_preview s) = shadow_y_slider s"
  by (simp_all add: update_output_image_preview_def apply_background_color_def Let_def
        regenerate_smart_blur_def split: option.splits)

lemma add_drop_shadow_more_settings:
  "soften_mask_var (add_drop_shadow s) = soften_mask_var s"
  "shadow_opacity_slider (add_drop_shadow s) = shadow_opacity_slider s"
  "shadow_x_slider (add_drop_shadow s) = shadow_x_slider s"
  "shadow_y_slider (add_drop_shadow s) = shadow_y_slider s"
  by (simp_all add: add_drop_shadow_def Let_def update_output_image_preview_settings
        cutout_working_image_def)

lemma add_undo_step_settings:
  "soften_mask_var (add_undo_step s) = soften_mask_var s"
  "shadow_opacity_slider (add_undo_step s) = shadow_opacity_slider s"
  "shadow_x_slider (add_undo_step s) = shadow_x_slider s"
  "shadow_y_slider (add_undo_step s) = shadow_y_slider s"
  by (simp_all add: add_undo_step_def Let_def)

lemma apply_mask_modification_settings:
  "original_image (apply_mask_modification ink operation s) = original_image s"
  "soften_mask_var (apply_mask_modification ink operation s) = soften_mask_var s"
  "shadow_opacity_slider (apply_mask_modification ink operation s) = shadow_opacity_slider s"
  "shadow_x_slider (apply_mask_modification ink operation s) = shadow_x_slider s"
  "shadow_y_slider (apply_mask_modification ink operation s) = shadow_y_slider s"
  by (simp_all add: apply_mask_modification_def Let_def add_drop_shadow_frame
        add_drop_shadow_more_settings regenerate_smart_blur_frame regenerate_smart_blur_shadow
        add_undo_step_frame add_undo_step_settings split: option.splits sum.splits)

lemma shadow_added_settings:
  "original_image shadow_added = example_image" "\<not> soften_mask_var shadow_added"
  "shadow_opacity_slider shadow_added = 1 / 2"
  "shadow_x_slider shadow_added = 5" "shadow_y_slider shadow_added = 5"
  unfolding shadow_added_def add_to_working_image_def apply_mask_modification_settings
  by (simp_all add: shadow_gui_def example_with_preview_def example_gui_def)

text \<open>
  Claim C1 fails on the code. With the drop shadow enabled, adding a preview mask stores
  the blurred shadow of the new mask in \<open>cached_blurred_shadow\<close>. The \<open>undo\<close> that follows
  puts the previous mask back but does not drop the cache: the cache still holds the
  shadow of the undone mask, and the composite that \<open>undo\<close> produces is built from it.
\<close>

theorem undo_composites_stale_shadow:
  "working_mask shadow_added = \<lparr>width = 2, height = 2, pix = [255, 10, 200, 255]\<rparr>
   \<and> cached_blurred_shadow shadow_added =
       Some (blurred_shadow \<lparr>width = 2, height = 2, pix = [255, 10, 200, 255]\<rparr> 10)
   \<and> working_mask shadow_undone = \<lparr>width = 2, height = 2, pix = [0, 10, 200, 0]\<rparr>
   \<and> cached_blurred_shadow shadow_undone =
       Some (blurred_shadow \<lparr>width = 2, height = 2, pix = [255, 10, 200, 255]\<rparr> 10)
   \<and> working_image shadow_undone =
       Alpha_composite
         (Shadow_layer (2, 2)
            (Point_mul (1 / 2)
               (blurred_shadow \<lparr>width = 2, height = 2, pix = [255, 10, 200, 255]\<rparr> 10))
            (5, 5))
         (Composite (Buffer example_image) (Buffer (Image_new (2, 2) 0))
            (Plain \<lparr>width = 2, height = 2, pix = [0, 10, 200, 0]\<rparr>))
   \<and> blurred_shadow \<lparr>width = 2, height = 2, pix = [255, 10, 200, 255]\<rparr> 10
       \<noteq> blurred_shadow \<lparr>width = 2, height = 2, pix = [0, 10, 200, 0]\<rparr> 10"
proof -
  have len: "1 < length (undo_history_mask shadow_added)"
    by (simp add: shadow_added_fields)
  note k = undo_keeps_shadow_cache [OF len shadow_added_fields(5,3,4)]
  note c = undo_composite [OF len shadow_added_fields(5,3,4) shadow_added_settings(2)]
  have m: "working_mask shadow_undone = \<lparr>width = 2, height = 2, pix = [0, 10, 200, 0]\<rparr>"
    unfolding shadow_undone_def k(2) by (simp add: shadow_added_fields)
  have ch: "cached_blurred_shadow shadow_undone =
       Some (blurred_shadow \<lparr>width = 2, height = 2, pix = [255, 10, 200, 255]\<rparr> 10)"
    unfolding shadow_undone_def by (rule k(1))
  have img: "working_image shadow_undone =
       Alpha_composite
         (Shadow_layer (2, 2)
            (Point_mul (1 / 2)
               (blurred_shadow \<lparr>width = 2, height = 2, pix = [255, 10, 200, 255]\<rparr> 10))
            (5, 5))
         (Composite (Buffer example_image) (Buffer (Image_new (2, 2) 0))
            (Plain \<lparr>width = 2, height = 2, pix = [0, 10, 200, 0]\<rparr>))"
    unfolding shadow_undone_def c
    by (simp add: shadow_added_settings shadow_added_fields py_int_def im_size_def
          example_image_def)
  have ne: "blurred_shadow \<lparr>width = 2, height = 2, pix = [255, 10, 200, 255]\<rparr> 10
       \<noteq> blurred_shadow \<lparr>width = 2, height = 2, pix = [0, 10, 200, 0]\<rparr> 10"
    by (simp add: blurred_shadow_def Let_def)
  show ?thesis
    using shadow_added_fields(1,3) m ch img ne by simp
qed

section \<open>Export\<close>








section \<open>Zooming in and out again\<close>













section \<open>Threshold formulas\<close>









end
